theory Spec2Isabelle
  imports Main "HOL-Library.List_Lexorder" "HOL-Library.Sublist"
begin

section \<open>Python strings\<close>

text \<open>
  A Python \<open>str\<close> is a sequence of Unicode code points; \<open>len\<close> counts code points and
  comparison is lexicographic by code point (the order of \<open>HOL-Library.List_Lexorder\<close>).
  Literals of the source are written \<open>str ''...''\<close>.
\<close>

type_synonym pystr = "nat list"

definition str :: "string \<Rightarrow> pystr" where
  "str cs = map of_char cs"

text \<open>
  \<open>str.isspace\<close> for one code point: the characters that \<open>str.strip()\<close> removes when it is
  called without an argument. The information separators U+001C..U+001F belong to them.
\<close>

definition isspace :: "nat \<Rightarrow> bool" where
  "isspace c \<longleftrightarrow>
     (9 \<le> c \<and> c \<le> 13) \<or> (28 \<le> c \<and> c \<le> 32) \<or> c = 133 \<or> c = 160 \<or> c = 5760 \<or>
     (8192 \<le> c \<and> c \<le> 8202) \<or> c = 8232 \<or> c = 8233 \<or> c = 8239 \<or> c = 8287 \<or> c = 12288"

text \<open>\<open>s.strip()\<close>: whitespace removed at both ends.\<close>

definition strip :: "pystr \<Rightarrow> pystr" where
  "strip s = rev (dropWhile isspace (rev (dropWhile isspace s)))"

text \<open>
  \<open>s.split(sep, maxsplit)\<close> for a separator of one character: at most \<open>maxsplit\<close> cuts, from
  the left; the rest of the string is the last field. The result is never empty.
\<close>

fun split_max :: "nat \<Rightarrow> nat \<Rightarrow> pystr \<Rightarrow> pystr list" where
  "split_max sep n [] = [[]]"
| "split_max sep 0 (c # cs) = [c # cs]"
| "split_max sep (Suc n) (c # cs) =
     (if c = sep then [] # split_max sep n cs
      else (case split_max sep (Suc n) cs of
              [] \<Rightarrow> [[c]]
            | w # ws \<Rightarrow> (c # w) # ws))"

text \<open>\<open>s.split(sep)\<close>: no limit on the number of cuts (a string has at most \<open>len(s)\<close>).\<close>

definition split :: "nat \<Rightarrow> pystr \<Rightarrow> pystr list" where
  "split sep s = split_max sep (length s) s"

text \<open>
  \<open>s.splitlines()\<close>: the line boundaries are \<open>\n\<close>, \<open>\r\<close>, \<open>\r\n\<close>, \<open>\v\<close>, \<open>\f\<close>, U+001C,
  U+001D, U+001E, U+0085, U+2028 and U+2029; the boundaries are not kept, and a boundary at
  the very end opens no further line. \<open>cur\<close> holds the current line, reversed.
\<close>

definition is_linebreak :: "nat \<Rightarrow> bool" where
  "is_linebreak c \<longleftrightarrow>
     (10 \<le> c \<and> c \<le> 13) \<or> (28 \<le> c \<and> c \<le> 30) \<or> c = 133 \<or> c = 8232 \<or> c = 8233"

fun splitlines_from :: "pystr \<Rightarrow> pystr \<Rightarrow> pystr list" where
  "splitlines_from cur [] = (if cur = [] then [] else [rev cur])"
| "splitlines_from cur [c] =
     (if is_linebreak c then [rev cur] else [rev (c # cur)])"
| "splitlines_from cur (c # d # cs) =
     (if c = 13 \<and> d = 10 then rev cur # splitlines_from [] cs
      else if is_linebreak c then rev cur # splitlines_from [] (d # cs)
      else splitlines_from (c # cur) (d # cs))"

definition splitlines :: "pystr \<Rightarrow> pystr list" where
  "splitlines s = splitlines_from [] s"

text \<open>\<open>str(n)\<close> for a non-negative integer: its decimal digits.\<close>

fun str_of_nat :: "nat \<Rightarrow> pystr" where
  "str_of_nat n = (if n < 10 then [48 + n] else str_of_nat (n div 10) @ [48 + n mod 10])"

text \<open>\<open>s.replace(a, b)\<close> for single characters \<open>a\<close> and \<open>b\<close>.\<close>

definition replace_char :: "nat \<Rightarrow> nat \<Rightarrow> pystr \<Rightarrow> pystr" where
  "replace_char a b s = map (\<lambda>c. if c = a then b else c) s"

section \<open>Data model\<close>

text \<open>
  What ends a command early: \<open>typer.Exit(code)\<close>, or a Python exception that nothing in
  the program catches.
\<close>

datatype error =
    Exit int
  | IndexError
  | KeyError
  | TypeError
  | ValueError
  | JSONDecodeError
  | OSError
  | CalledProcessError
  | LibraryError

text \<open>
  A commit record as the program holds it: a LangChain \<open>Document\<close> whose \<open>page_content\<close> is
  the commit message and whose \<open>metadata\<close> dictionary has the keys \<open>sha\<close>, \<open>author\<close>, \<open>date\<close>.
\<close>

record document =
  page_content :: pystr
  metadata :: "(pystr \<times> pystr) list"

datatype embeddings = HuggingFaceEmbeddings pystr | OpenAIEmbeddings pystr

datatype llm = ChatOpenAI pystr

text \<open>
  What a chat model returns: an object with a \<open>content\<close> attribute, or something else; in
  both cases the field is the text that \<open>str(...)\<close> gives.
\<close>

datatype response = With_content pystr | Without_content pystr

datatype json =
    JNull
  | JBool bool
  | JInt int
  | JStr pystr
  | JArr "json list"
  | JObj "(pystr \<times> json) list"

text \<open>
  A directory entry as \<open>read_text\<close> and \<open>json.loads\<close> see it: text that is the serialisation
  of a JSON value (\<open>json.dumps\<close> writes it, \<open>json.loads\<close> gives the value back), text that
  \<open>json.loads\<close> rejects, or something that cannot be read as text (a directory).
\<close>

datatype content = Text_json json | Text_other | Not_readable

text \<open>What \<open>(folder / ".git")\<close> names in the file system.\<close>

datatype fs_entry = Absent | Regular_file | Directory

record datetime =
  year :: nat
  month :: nat
  day :: nat
  hour :: nat
  minute :: nat
  second :: nat

datatype stream = Stdout | Stderr

text \<open>
  The visible effects of a run, in the order they happen. \<open>Print_skipping parts\<close> is the
  line \<open>print(f"... Skipping malformed entry: {parts}")\<close>, kept with its list and not
  rendered through \<open>repr\<close>.
\<close>

datatype event =
    Echo stream pystr
  | Print_skipping "pystr list"
  | Read_text pystr
  | Write_text pystr json
  | From_documents "document list" embeddings pystr
  | Similarity_search json embeddings pystr int
  | Invoke llm pystr

text \<open>
  Everything a command reads from outside: the environment variable, the file system, the
  clock, the output of the two git subprocesses, and the answers of the vector store and of
  the chat model (external libraries, taken as they answer).
\<close>

record env =
  openai_api_key :: "pystr option"
  dotgit :: fs_entry
  resolved_name :: pystr
  now :: datetime
  utcnow_isoformat :: pystr
  git_rev_parse :: "error + pystr"
  git_log :: "error + pystr"
  chroma_from_documents :: "document list \<Rightarrow> embeddings \<Rightarrow> pystr \<Rightarrow> error option"
  files :: "(pystr \<times> content) list"
  chroma_similarity_search :: "json \<Rightarrow> embeddings \<Rightarrow> pystr \<Rightarrow> int \<Rightarrow> error + document list"
  llm_invoke :: "llm \<Rightarrow> pystr \<Rightarrow> error + response"

section \<open>Runs: effects so far, then an error or a value\<close>

type_synonym 'a run = "event list \<times> (error + 'a)"

definition ret :: "'a \<Rightarrow> 'a run" where
  "ret x = ([], Inr x)"

definition raise :: "error \<Rightarrow> 'a run" where
  "raise e = ([], Inl e)"

definition emit :: "event \<Rightarrow> unit run" where
  "emit ev = ([ev], Inr ())"

definition lift :: "error + 'a \<Rightarrow> 'a run" where
  "lift r = ([], r)"

definition run_bind :: "'a run \<Rightarrow> ('a \<Rightarrow> 'b run) \<Rightarrow> 'b run" where
  "run_bind m f =
     (case m of
        (es, Inl e) \<Rightarrow> (es, Inl e)
      | (es, Inr x) \<Rightarrow> (case f x of (es', r) \<Rightarrow> (es @ es', r)))"

definition echo :: "pystr \<Rightarrow> unit run" where
  "echo msg = emit (Echo Stdout msg)"

text \<open>\<open>typer.echo(msg, err=True); raise typer.Exit(code=1)\<close>\<close>

definition exit_1 :: "pystr \<Rightarrow> 'a run" where
  "exit_1 msg = ([Echo Stderr msg], Inl (Exit 1))"

section \<open>utilities/git_command_utilities.py\<close>

text \<open>
  The loop of \<open>_extract_commits_with_message\<close> over the entries, with the list \<open>docs\<close> and
  the lines printed so far.
\<close>

fun extract_loop :: "pystr list \<Rightarrow> document list \<Rightarrow> event list \<Rightarrow> document list \<times> event list" where
  "extract_loop [] docs out = (docs, out)"
| "extract_loop (entry # rest) docs out =
     (if strip entry = [] then extract_loop rest docs out
      else
        let parts = split_max 0x1F 4 entry in
        if length parts \<noteq> 4 then extract_loop rest docs (out @ [Print_skipping parts])
        else
          let sha = parts ! 0; author = parts ! 1; date = parts ! 2; message = parts ! 3 in
          extract_loop rest
            (docs @ [\<lparr>page_content = message,
                      metadata = [(str ''sha'', sha), (str ''author'', author), (str ''date'', date)]\<rparr>])
            out)"

text \<open>
  \<open>_extract_commits_with_message\<close>, from the text that \<open>git log\<close> printed:
  \<open>raw.strip().split("\x1e")\<close>, then the loop.
\<close>

definition extract_commits_with_message :: "pystr \<Rightarrow> document list \<times> event list" where
  "extract_commits_with_message raw = extract_loop (split 0x1E (strip raw)) [] []"

section \<open>utilities/api_key_manager.py\<close>

text \<open>The message of \<open>_get_api_key_openai\<close>; 39 is the apostrophe.\<close>

definition api_key_not_set :: pystr where
  "api_key_not_set =
     str ''Error: OPENAI_API_KEY is not set. Run export OPENAI_API_KEY='' @ [39] @ str ''<key>'' @ [39]"

text \<open>\<open>if not key\<close> holds for \<open>None\<close> (the variable is unset) and for the empty string.\<close>

definition get_api_key_openai :: "env \<Rightarrow> pystr run" where
  "get_api_key_openai e =
     (case openai_api_key e of
        None \<Rightarrow> exit_1 api_key_not_set
      | Some key \<Rightarrow> if key = [] then exit_1 api_key_not_set else ret key)"

definition get_api_key :: "env \<Rightarrow> pystr \<Rightarrow> pystr run" where
  "get_api_key e provider =
     (if provider = str ''openai'' then get_api_key_openai e
      else exit_1 (str ''Unknown embedding provider: '' @ provider))"

section \<open>utilities/embeddings.py\<close>

definition get_embeddings :: "env \<Rightarrow> pystr \<Rightarrow> pystr \<Rightarrow> embeddings run" where
  "get_embeddings e provider model =
     (if provider = str ''hf'' then ret (HuggingFaceEmbeddings model)
      else if provider = str ''openai'' then
        run_bind (get_api_key e (str ''openai'')) (\<lambda>_. ret (OpenAIEmbeddings model))
      else exit_1 (str ''Unknown embedding provider: '' @ provider))"

section \<open>utilities/llm_provider.py\<close>

definition get_llm_provider_openai :: "env \<Rightarrow> pystr \<Rightarrow> llm run" where
  "get_llm_provider_openai e model =
     run_bind (get_api_key e (str ''openai'')) (\<lambda>_. ret (ChatOpenAI model))"

definition get_llm_provider :: "env \<Rightarrow> pystr \<Rightarrow> pystr \<Rightarrow> llm run" where
  "get_llm_provider e provider model =
     (if provider = str ''openai'' then get_llm_provider_openai e model
      else exit_1 (str ''Unknown LLM provider: '' @ provider))"

section \<open>message.py\<close>

definition root_dir :: pystr where
  "root_dir = str ''.tmp''"

text \<open>
  \<open>strftime("%Y%m%d%H%M%S")\<close>: the year on four digits (as every platform prints the
  years from 1000 on), the other fields on two.
\<close>

definition zero_pad :: "nat \<Rightarrow> nat \<Rightarrow> pystr" where
  "zero_pad w n = replicate (w - length (str_of_nat n)) 48 @ str_of_nat n"

definition strftime :: "datetime \<Rightarrow> pystr" where
  "strftime t =
     zero_pad 4 (year t) @ zero_pad 2 (month t) @ zero_pad 2 (day t) @
     zero_pad 2 (hour t) @ zero_pad 2 (minute t) @ zero_pad 2 (second t)"

text \<open>
  \<open>_get_embeddings_store_paths\<close>: the path of the metadata file and the directory of the
  vector store, both named with the time of the call.
\<close>

definition get_embeddings_store_paths :: "env \<Rightarrow> pystr \<times> pystr" where
  "get_embeddings_store_paths e =
     (let timestamp = strftime (now e);
          node_name = replace_char 32 95 (resolved_name e);
          embed_filename =
            root_dir @ str ''/'' @ node_name @ str ''-embeddings-'' @ timestamp @ str ''.json'';
          chroma_dir = root_dir @ str ''/.git_gpt_chroma_db_'' @ timestamp
      in (embed_filename, chroma_dir))"

text \<open>\<open>(folder / ".git").exists()\<close>\<close>

definition exists :: "fs_entry \<Rightarrow> bool" where
  "exists f \<longleftrightarrow> f \<noteq> Absent"

definition payload :: "pystr \<Rightarrow> pystr \<Rightarrow> pystr \<Rightarrow> nat \<Rightarrow> pystr \<Rightarrow> pystr \<Rightarrow> json" where
  "payload branch created_at provider doc_count path chroma_dir =
     JObj [(str ''branch'', JStr branch),
           (str ''created_at'', JStr created_at),
           (str ''provider'', JStr provider),
           (str ''doc_count'', JInt (int doc_count)),
           (str ''path'', JStr path),
           (str ''chroma_dir'', JStr chroma_dir)]"

text \<open>
  The command \<open>prepare\<close>. \<open>folder\<close> is the argument as \<open>str(folder)\<close> prints it. The two
  git subprocesses and \<open>Chroma.from_documents\<close> answer as the world says, and an error of
  theirs ends the run. The final \<open>write_text\<close> is taken to succeed: the store directory
  exists once the vector store has been created in it.
\<close>

definition prepare :: "env \<Rightarrow> pystr \<Rightarrow> pystr \<Rightarrow> pystr \<Rightarrow> unit run" where
  "prepare e folder provider model =
     (if \<not> exists (dotgit e) then
        exit_1 (str ''Error: provided folder is missing or is not a Git repository'')
      else
        case get_embeddings_store_paths e of (embed_file, chroma_dir) \<Rightarrow>
        run_bind (lift (git_rev_parse e)) (\<lambda>out.
        let branch = strip out in
        run_bind (echo (str ''Preparing embeddings for branch: '' @ branch @ str '' at '' @ folder)) (\<lambda>_.
        run_bind (lift (git_log e)) (\<lambda>raw.
        case extract_commits_with_message raw of (docs, printed) \<Rightarrow>
        run_bind (printed, Inr ()) (\<lambda>_.
        run_bind (get_embeddings e provider model) (\<lambda>embeddings.
        run_bind (emit (From_documents docs embeddings chroma_dir)) (\<lambda>_.
        run_bind (lift (case chroma_from_documents e docs embeddings chroma_dir of
                          None \<Rightarrow> Inr () | Some err \<Rightarrow> Inl err)) (\<lambda>_.
        run_bind (emit (Write_text embed_file
                    (payload branch (utcnow_isoformat e @ str ''Z'') provider (length docs)
                       folder chroma_dir))) (\<lambda>_.
        echo ([0x2705] @ str '' Embeddings indexed and stored in '' @ embed_file))))))))))"

text \<open>
  \<open>write_text\<close> on the file system: the file is created, or its content replaced.
\<close>

fun write_text :: "pystr \<Rightarrow> content \<Rightarrow> (pystr \<times> content) list \<Rightarrow> (pystr \<times> content) list" where
  "write_text p c [] = [(p, c)]"
| "write_text p c ((q, d) # fs) = (if q = p then (p, c) # fs else (q, d) # write_text p c fs)"

text \<open>The file system after a run: the writes of its events, in order.\<close>

fun files_after :: "event list \<Rightarrow> (pystr \<times> content) list \<Rightarrow> (pystr \<times> content) list" where
  "files_after [] fs = fs"
| "files_after (Write_text p j # evs) fs = files_after evs (write_text p (Text_json j) fs)"
| "files_after (_ # evs) fs = files_after evs fs"

text \<open>
  Shell patterns as \<open>Path.glob\<close> matches them against one name, for patterns made of \<open>*\<close>
  and plain characters: \<open>*\<close> stands for any run of characters, also an empty one and also a
  leading dot; everything else stands for itself, case included.
\<close>

datatype glob_item = Star | Lit nat

fun glob_match :: "glob_item list \<Rightarrow> pystr \<Rightarrow> bool" where
  "glob_match [] s \<longleftrightarrow> s = []"
| "glob_match (Lit c # ps) [] \<longleftrightarrow> False"
| "glob_match (Lit c # ps) (d # s) \<longleftrightarrow> c = d \<and> glob_match ps s"
| "glob_match (Star # ps) [] \<longleftrightarrow> glob_match ps []"
| "glob_match (Star # ps) (d # s) \<longleftrightarrow> glob_match ps (d # s) \<or> glob_match (Star # ps) s"

text \<open>The pattern \<open>*-embeddings-*.json\<close>.\<close>

definition embeddings_pattern :: "glob_item list" where
  "embeddings_pattern =
     Star # map Lit (str ''-embeddings-'') @ Star # map Lit (str ''.json'')"

text \<open>
  \<open>Path(dir).glob(pattern)\<close>: the paths \<open>dir/name\<close> of the file system whose \<open>name\<close> has no
  further \<open>/\<close> and matches the pattern, in the order the directory lists them.
\<close>

definition glob :: "pystr \<Rightarrow> glob_item list \<Rightarrow> (pystr \<times> content) list \<Rightarrow> pystr list" where
  "glob dir pat fs =
     filter (\<lambda>p. prefix (dir @ str ''/'') p \<and>
                 47 \<notin> set (drop (length dir + 1) p) \<and>
                 glob_match pat (drop (length dir + 1) p))
       (map fst fs)"

text \<open>\<open>latest.read_text()\<close> followed by \<open>json.loads\<close>.\<close>

definition read_json :: "(pystr \<times> content) list \<Rightarrow> pystr \<Rightarrow> json run" where
  "read_json fs p =
     run_bind (emit (Read_text p)) (\<lambda>_.
       case map_of fs p of
         None \<Rightarrow> raise OSError
       | Some Not_readable \<Rightarrow> raise OSError
       | Some Text_other \<Rightarrow> raise JSONDecodeError
       | Some (Text_json j) \<Rightarrow> ret j)"

text \<open>\<open>data[key]\<close> for a string key, on whatever \<open>json.loads\<close> returned.\<close>

definition subscript :: "json \<Rightarrow> pystr \<Rightarrow> error + json" where
  "subscript data key =
     (case data of
        JObj kvs \<Rightarrow> (case map_of kvs key of None \<Rightarrow> Inl KeyError | Some v \<Rightarrow> Inr v)
      | _ \<Rightarrow> Inl TypeError)"

text \<open>A metadata value inside an f-string: \<open>dict.get\<close> gives \<open>None\<close> for a missing key.\<close>

definition fmt :: "pystr option \<Rightarrow> pystr" where
  "fmt v = (case v of None \<Rightarrow> str ''None'' | Some s \<Rightarrow> s)"

text \<open>
  The loop of \<open>search\<close> over the results: one line printed per commit, and the same line
  shape appended to \<open>commits\<close>. \<open>doc.page_content[:100].splitlines()[0]\<close> raises
  \<open>IndexError\<close> when \<open>splitlines\<close> returns the empty list.
\<close>

fun format_results :: "document list \<Rightarrow> pystr \<Rightarrow> pystr run" where
  "format_results [] commits = ret commits"
| "format_results (doc # docs) commits =
     (let sha = map_of (metadata doc) (str ''sha'');
          author = map_of (metadata doc) (str ''author'');
          date = map_of (metadata doc) (str ''date'')
      in case splitlines (take 100 (page_content doc)) of
           [] \<Rightarrow> raise IndexError
         | message # _ \<Rightarrow>
             run_bind (echo (str ''- '' @ fmt sha @ str '': '' @ fmt author @ str '' on '' @
                             fmt date @ str '': '' @ message @ str ''...'')) (\<lambda>_.
             format_results docs
               (commits @ str ''-commit: '' @ fmt sha @ str '': author: '' @ fmt author @
                str '', date: '' @ fmt date @ str '', message: '' @ message @ str ''...'' @ [10])))"

text \<open>
  The template text of \<open>PromptTemplate\<close> filled in by \<open>invoke\<close>, in the f-string format:
  \<open>{name}\<close> is replaced by the value given for \<open>name\<close> (\<open>KeyError\<close> when there is none),
  \<open>{{\<close> and \<open>}}\<close> stand for one brace, a brace that opens or closes nothing is a
  \<open>ValueError\<close>. The values are inserted as they are and never read as template text.
  The variables are the ones the template text names; the \<open>input_variables\<close> argument of
  the constructor plays no part.
\<close>

function format_template :: "pystr \<Rightarrow> (pystr \<times> pystr) list \<Rightarrow> error + pystr" where
  "format_template [] kw = Inr []"
| "format_template [c] kw = (if c = 123 \<or> c = 125 then Inl ValueError else Inr [c])"
| "format_template (c # d # cs) kw =
     (if c = 123 \<and> d = 123 then map_sum id ((#) 123) (format_template cs kw)
      else if c = 125 \<and> d = 125 then map_sum id ((#) 125) (format_template cs kw)
      else if c = 125 then Inl ValueError
      else if c = 123 then
        (case dropWhile (\<lambda>x. x \<noteq> 125) (d # cs) of
           [] \<Rightarrow> Inl ValueError
         | _ # rest \<Rightarrow>
             (case map_of kw (takeWhile (\<lambda>x. x \<noteq> 125) (d # cs)) of
                None \<Rightarrow> Inl KeyError
              | Some v \<Rightarrow> map_sum id ((@) v) (format_template rest kw)))
      else map_sum id ((#) c) (format_template (d # cs) kw))"
  by pat_completeness auto
termination
proof (relation "measure (\<lambda>(s, kw). length s)")
  fix c d :: nat and cs rest :: pystr and kw :: "(pystr \<times> pystr) list" and x :: nat
  assume "dropWhile (\<lambda>x. x \<noteq> 125) (d # cs) = x # rest"
  then have "length (x # rest) \<le> length (d # cs)"
    by (metis length_dropWhile_le)
  then show "((rest, kw), (c # d # cs, kw)) \<in> measure (\<lambda>(s, kw). length s)"
    by simp
qed auto

definition system_prompt :: pystr where
  "system_prompt =
     str ''You are a helpful Engineer who understands how development works'' @ [10] @
     str ''        and answers questions about git commit changes. You are concise, accurate, and explain all commit messages'' @ [10] @
     str ''        which are relevant to the question clearly using developer-friendly language and provide all relevant details'' @ [10] @
     str ''        including the commit hash, author, date, and message. Answer only based on the commit messages provided.'' @ [10] @
     str ''        If you don't know the answer, say so.''"

definition prompt_template :: pystr where
  "prompt_template =
     system_prompt @ [10, 10] @ str ''Commit Messages:'' @ [10] @ str ''{commits}'' @ [10, 10] @
     str ''Question:'' @ [10] @ str ''{question}''"

text \<open>
  The command \<open>search\<close>. \<open>sorted(files)[-1]\<close> compares \<open>Path\<close> objects, part by part; all
  the paths found lie in \<open>root_dir\<close>, so their order is the order of the path strings and
  of the file names. \<open>k\<close> goes to the vector store as it is. The answer of the model is
  printed through \<open>str(response.content)\<close> when the response has a \<open>content\<close>, through
  \<open>str(response)\<close> otherwise.
\<close>

definition search ::
  "env \<Rightarrow> pystr \<Rightarrow> pystr \<Rightarrow> pystr \<Rightarrow> bool \<Rightarrow> pystr \<Rightarrow> pystr \<Rightarrow> int \<Rightarrow> unit run" where
  "search e query provider model summarize llm_provider llm_model k =
     (if length query > 200 then exit_1 (str ''Error: Query exceeds 200 characters.'')
      else
        let found = glob root_dir embeddings_pattern (files e) in
        if found = [] then
          exit_1 (str ''No embeddings found. Run '' @ [39] @ str ''prepare'' @ [39] @ str '' first.'')
        else
          let latest = last (sort found) in
          run_bind (read_json (files e) latest) (\<lambda>data.
          run_bind (lift (subscript data (str ''chroma_dir''))) (\<lambda>chroma_dir.
          run_bind (get_embeddings e provider model) (\<lambda>embedding_function.
          run_bind (emit (Similarity_search chroma_dir embedding_function query k)) (\<lambda>_.
          run_bind (lift (chroma_similarity_search e chroma_dir embedding_function query k)) (\<lambda>docs.
          run_bind (echo ([0x1F50D] @ str '' Top '' @ str_of_nat (length docs) @
                          str '' matching commits:'')) (\<lambda>_.
          run_bind (format_results docs []) (\<lambda>commits.
          if summarize then
            run_bind (get_llm_provider e llm_provider llm_model) (\<lambda>llm.
            run_bind (lift (format_template prompt_template
                              [(str ''commits'', commits), (str ''question'', query)])) (\<lambda>prompt.
            run_bind (emit (Invoke llm prompt)) (\<lambda>_.
            run_bind (lift (llm_invoke e llm prompt)) (\<lambda>response.
            let answer = (case response of With_content c \<Rightarrow> c | Without_content r \<Rightarrow> r) in
            run_bind (echo ([10, 0x1F916] @ str '' LLM Answer:'')) (\<lambda>_.
            echo (strip answer))))))
          else ret ()))))))))"

declare str_of_nat.simps [simp del]

text \<open>The files written during a run, in order.\<close>

fun writes :: "event list \<Rightarrow> (pystr \<times> json) list" where
  "writes [] = []"
| "writes (Write_text p j # evs) = (p, j) # writes evs"
| "writes (_ # evs) = writes evs"

text \<open>The files read during a run, and the similarity searches made, in order.\<close>

fun reads :: "event list \<Rightarrow> pystr list" where
  "reads [] = []"
| "reads (Read_text p # evs) = p # reads evs"
| "reads (_ # evs) = reads evs"

fun searches :: "event list \<Rightarrow> (json \<times> embeddings \<times> pystr \<times> int) list" where
  "searches [] = []"
| "searches (Similarity_search dir emb q k # evs) = (dir, emb, q, k) # searches evs"
| "searches (_ # evs) = searches evs"

text \<open>
  A sequence of \<open>prepare\<close> invocations, each with the world it runs in and its arguments,
  and the store directory they leave behind.
\<close>

fun prepare_all ::
  "(env \<times> pystr \<times> pystr \<times> pystr) list \<Rightarrow> (pystr \<times> content) list \<Rightarrow> (pystr \<times> content) list" where
  "prepare_all [] fs = fs"
| "prepare_all ((e, folder, provider, model) # rest) fs =
     prepare_all rest (files_after (fst (prepare e folder provider model)) fs)"

text \<open>
  A path is a metadata file of the timestamp \<open>ts\<close> when it is
  \<open>.tmp/<some name>-embeddings-<ts>.json\<close>.
\<close>

definition named_with_timestamp :: "pystr \<Rightarrow> pystr \<Rightarrow> bool" where
  "named_with_timestamp ts p \<longleftrightarrow>
     prefix (root_dir @ str ''/'') p \<and> suffix (str ''-embeddings-'' @ ts @ str ''.json'') p"

text \<open>The values a Python \<open>datetime\<close> can hold, as far as the fields go.\<close>

definition valid_datetime :: "datetime \<Rightarrow> bool" where
  "valid_datetime t \<longleftrightarrow>
     1 \<le> year t \<and> year t \<le> 9999 \<and> 1 \<le> month t \<and> month t \<le> 12 \<and>
     1 \<le> day t \<and> day t \<le> 31 \<and> hour t < 24 \<and> minute t < 60 \<and> second t < 60"

text \<open>
  A store directory in which every metadata file records the provider \<open>P\<close>, everything
  else being as it is.
\<close>

fun record_provider :: "pystr \<Rightarrow> content \<Rightarrow> content" where
  "record_provider P (Text_json (JObj kvs)) =
     Text_json (JObj (map (\<lambda>(k, v). if k = str ''provider'' then (k, JStr P) else (k, v)) kvs))"
| "record_provider P c = c"

definition with_recorded_provider :: "pystr \<Rightarrow> env \<Rightarrow> env" where
  "with_recorded_provider P e = e\<lparr>files := map (\<lambda>(p, c). (p, record_provider P c)) (files e)\<rparr>"

section \<open>Concrete inputs\<close>

text \<open>
  A repository with two commits, prepared on 2025-03-09 at 14:05:07 UTC from a folder named
  \<open>my repo\<close>, with no API key in the environment and an empty store directory.
\<close>

definition repo_env :: env where
  "repo_env =
     \<lparr>openai_api_key = None,
      dotgit = Directory,
      resolved_name = str ''my repo'',
      now = \<lparr>year = 2025, month = 3, day = 9, hour = 14, minute = 5, second = 7\<rparr>,
      utcnow_isoformat = str ''2025-03-09T14:05:09.250000'',
      git_rev_parse = Inr (str ''main'' @ [10]),
      git_log =
        Inr (str ''a1'' @ [0x1F] @ str ''Ann'' @ [0x1F] @ str ''Mon'' @ [0x1F] @ str ''fix'' @ [0x1E, 10] @
             str ''b2'' @ [0x1F] @ str ''Bob'' @ [0x1F] @ str ''Sun'' @ [0x1F] @ str ''init'' @ [0x1E]),
      chroma_from_documents = (\<lambda>docs emb dir. None),
      files = [],
      chroma_similarity_search = (\<lambda>dir emb query k. Inr []),
      llm_invoke = (\<lambda>model prompt. Inr (With_content (str ''ok'')))\<rparr>"

text \<open>
  The store directory after the run above, together with a second metadata file written
  later for a folder named \<open>a repo\<close>, and a file that is no metadata file. The vector store
  answers every query with two commits.
\<close>

definition store_env :: env where
  "store_env =
     repo_env
       \<lparr>files :=
          [(str ''.tmp/my_repo-embeddings-20250309140507.json'',
            Text_json (payload (str ''main'') (str ''2025-03-09T14:05:09.250000Z'') (str ''hf'') 2
                         (str ''/home/u/my repo'') (str ''.tmp/.git_gpt_chroma_db_20250309140507''))),
           (str ''.tmp/a_repo-embeddings-20250401000000.json'',
            Text_json (payload (str ''dev'') (str ''2025-04-01T00:00:03.000100Z'') (str ''openai'') 7
                         (str ''/home/u/a repo'') (str ''.tmp/.git_gpt_chroma_db_20250401000000''))),
           (str ''.tmp/notes.txt'', Text_other)],
        chroma_similarity_search :=
          (\<lambda>dir emb query k.
             Inr [\<lparr>page_content = str ''fix'',
                   metadata = [(str ''sha'', str ''a1''), (str ''author'', str ''Ann''),
                               (str ''date'', str ''Mon'')]\<rparr>,
                  \<lparr>page_content = str ''init'' @ [10, 10] @ str ''first commit'',
                   metadata = [(str ''sha'', 10 # str ''b2''), (str ''author'', str ''Bob''),
                               (str ''date'', str ''Sun'')]\<rparr>])\<rparr>"

text \<open>
  The same repository seen from a linked worktree, where \<open>.git\<close> is a regular file that
  points to the repository and the git commands answer as before.
\<close>

definition worktree_env :: env where
  "worktree_env = repo_env\<lparr>dotgit := Regular_file\<rparr>"

text \<open>
  The same second, another folder: a repository in a folder named \<open>other\<close>, prepared at the
  time of \<open>repo_env\<close>.
\<close>

definition other_env :: env where
  "other_env = repo_env\<lparr>resolved_name := str ''other''\<rparr>"

text \<open>
  The store of \<open>store_env\<close> with an API key set, answering with two commits of which the
  second has an empty message (a commit made with \<open>--allow-empty-message\<close>).
\<close>

definition empty_message_env :: env where
  "empty_message_env =
     store_env
       \<lparr>openai_api_key := Some (str ''sk-1''),
        chroma_similarity_search :=
          (\<lambda>dir emb query k.
             Inr [\<lparr>page_content = str ''fix'',
                   metadata = [(str ''sha'', str ''a1''), (str ''author'', str ''Ann''),
                               (str ''date'', str ''Mon'')]\<rparr>,
                  \<lparr>page_content = [],
                   metadata = [(str ''sha'', 10 # str ''b2''), (str ''author'', str ''Bob''),
                               (str ''date'', str ''Sun'')]\<rparr>])\<rparr>"

text \<open>
  The folder of \<open>repo_env\<close> prepared again within the same second, after a switch to the
  branch \<open>dev\<close>.
\<close>

definition rerun_env :: env where
  "rerun_env =
     repo_env\<lparr>git_rev_parse := Inr (str ''dev'' @ [10]),
              utcnow_isoformat := str ''2025-03-09T14:05:07.900000''\<rparr>"

text \<open>Two commits as the vector store returns them, the second with a body.\<close>

definition two_results :: "document list" where
  "two_results =
     [\<lparr>page_content = str ''fix'',
       metadata = [(str ''sha'', str ''a1''), (str ''author'', str ''Ann''),
                   (str ''date'', str ''Mon'')]\<rparr>,
      \<lparr>page_content = str ''init'' @ [10, 10] @ str ''first commit'',
       metadata = [(str ''sha'', 10 # str ''b2''), (str ''author'', str ''Bob''),
                   (str ''date'', str ''Sun'')]\<rparr>]"

text \<open>The world of \<open>repo_env\<close> with an API key set.\<close>

definition keyed_env :: env where
  "keyed_env = repo_env\<lparr>openai_api_key := Some (str ''sk-1'')\<rparr>"

text \<open>
  Two later searches. The first runs without an API key on the store directory that a
  \<open>prepare\<close> with the provider \<open>openai\<close> left behind; the second runs with an API key on
  the store directory that a \<open>prepare\<close> with the provider \<open>hf\<close> left behind. The vector store
  answers both with the two commits.
\<close>

definition hf_searcher_env :: env where
  "hf_searcher_env =
     repo_env
       \<lparr>files := files_after (fst (prepare keyed_env (str ''/home/u/my repo'') (str ''openai'')
                                    (str ''text-embedding-3-small''))) [],
        chroma_similarity_search := (\<lambda>dir emb query k. Inr two_results)\<rparr>"

definition openai_searcher_env :: env where
  "openai_searcher_env =
     keyed_env
       \<lparr>files := files_after (fst (prepare repo_env (str ''/home/u/my repo'') (str ''hf'')
                                    (str ''bge''))) [],
        chroma_similarity_search := (\<lambda>dir emb query k. Inr two_results)\<rparr>"

section \<open>Properties of runs\<close>

lemma run_bind_Inr: "run_bind (es, Inr x) f = (es @ fst (f x), snd (f x))"
  by (simp add: run_bind_def split: prod.splits)

lemma run_bind_Inl: "run_bind (es, Inl err) f = (es, Inl err)"
  by (simp add: run_bind_def)

lemma str_hf_openai: "str ''hf'' \<noteq> str ''openai''"
  by (simp add: str_def)

section \<open>Provider dispatch\<close>

text \<open>
  C7. Provider dispatch is a two-way choice. For every provider string other than \<open>hf\<close> and
  \<open>openai\<close>, \<open>_get_embeddings\<close> prints the unknown-provider message on the error stream
  and exits with code 1; for every LLM provider string other than \<open>openai\<close>,
  \<open>_get_llm_provider\<close> does the same with its own message.
\<close>

theorem unknown_provider_exits:
  "(provider \<noteq> str ''hf'' \<and> provider \<noteq> str ''openai'' \<longrightarrow>
      get_embeddings e provider model =
        ([Echo Stderr (str ''Unknown embedding provider: '' @ provider)], Inl (Exit 1))) \<and>
   (llm_provider \<noteq> str ''openai'' \<longrightarrow>
      get_llm_provider e llm_provider llm_model =
        ([Echo Stderr (str ''Unknown LLM provider: '' @ llm_provider)], Inl (Exit 1)))"
  by (simp add: get_embeddings_def get_llm_provider_def exit_1_def)

theorem unknown_provider_exits_witness:
  "get_embeddings repo_env (str ''cohere'') (str ''m'') =
     ([Echo Stderr (str ''Unknown embedding provider: '' @ str ''cohere'')], Inl (Exit 1)) \<and>
   get_llm_provider repo_env (str ''hf'') (str ''m'') =
     ([Echo Stderr (str ''Unknown LLM provider: '' @ str ''hf'')], Inl (Exit 1))"
  using unknown_provider_exits [where provider = "str ''cohere''" and llm_provider = "str ''hf''"
      and e = repo_env and model = "str ''m''" and llm_model = "str ''m''"]
  by (simp add: str_def)

section \<open>Parsing the log\<close>

lemma split_max_4: "split_max sep 4 s = split_max sep (Suc (Suc (Suc (Suc 0)))) s"
  by (simp add: eval_nat_numeral)

text \<open>
  C1. The log of a repository with one commit whose subject is empty is the single entry
  \<open>a1 US Ann US Mon US\<close> followed by the record separator. The entry splits into exactly
  four fields, the last one empty; but \<open>raw.strip()\<close> removes the unit separator together
  with the record separator, both being whitespace for Python, so the loop sees three
  fields, prints the warning and returns no commit record.
\<close>

theorem extract_drops_final_entry_with_empty_subject:
  "length (split_max 0x1F 4 (str ''a1'' @ [0x1F] @ str ''Ann'' @ [0x1F] @ str ''Mon'' @ [0x1F])) = 4 \<and>
   extract_commits_with_message
     (str ''a1'' @ [0x1F] @ str ''Ann'' @ [0x1F] @ str ''Mon'' @ [0x1F] @ [0x1E]) =
     ([], [Print_skipping [str ''a1'', str ''Ann'', str ''Mon'']])"
  by (simp add: extract_commits_with_message_def split_def strip_def isspace_def str_def
      split_max_4)

section \<open>The first line of a message\<close>

lemma splitlines_from_Nil_iff: "splitlines_from cur s = [] \<longleftrightarrow> cur = [] \<and> s = []"
  by (induction cur s rule: splitlines_from.induct) auto

lemma splitlines_Nil_iff: "splitlines s = [] \<longleftrightarrow> s = []"
  by (simp add: splitlines_def splitlines_from_Nil_iff)

lemma format_results_Cons_ok:
  "splitlines (take 100 (page_content d)) = l # ls \<Longrightarrow>
   \<exists>ev c'. format_results (d # docs) commits =
     (ev # fst (format_results docs c'), snd (format_results docs c'))"
  by (simp add: Let_def echo_def emit_def run_bind_Inr) blast

lemma format_results_error:
  "snd (format_results docs commits) = Inl err \<Longrightarrow>
   err = IndexError \<and> (\<exists>d \<in> set docs. page_content d = [])"
proof (induction docs arbitrary: commits)
  case Nil
  then show ?case by (simp add: ret_def)
next
  case (Cons d docs)
  show ?case
  proof (cases "page_content d = []")
    case True
    with Cons.prems show ?thesis
      by (simp add: splitlines_def raise_def)
  next
    case False
    then obtain l ls where sl: "splitlines (take 100 (page_content d)) = l # ls"
      by (cases "splitlines (take 100 (page_content d))") (simp_all add: splitlines_Nil_iff)
    from format_results_Cons_ok [OF sl] obtain ev c' where
      "format_results (d # docs) commits =
         (ev # fst (format_results docs c'), snd (format_results docs c'))"
      by blast
    with Cons.prems have "snd (format_results docs c') = Inl err" by simp
    with Cons.IH show ?thesis by auto
  qed
qed

lemma format_results_empty_message:
  "\<exists>d \<in> set docs. page_content d = [] \<Longrightarrow> snd (format_results docs commits) = Inl IndexError"
proof (induction docs arbitrary: commits)
  case Nil
  then show ?case by simp
next
  case (Cons d docs)
  show ?case
  proof (cases "page_content d = []")
    case True
    then show ?thesis
      by (simp add: splitlines_def raise_def)
  next
    case False
    then obtain l ls where sl: "splitlines (take 100 (page_content d)) = l # ls"
      by (cases "splitlines (take 100 (page_content d))") (simp_all add: splitlines_Nil_iff)
    from format_results_Cons_ok [OF sl] obtain ev c' where
      eq: "format_results (d # docs) commits =
             (ev # fst (format_results docs c'), snd (format_results docs c'))"
      by blast
    from False Cons.prems have "\<exists>d \<in> set docs. page_content d = []" by simp
    then have "snd (format_results docs c') = Inl IndexError" by (rule Cons.IH)
    with eq show ?thesis by simp
  qed
qed

lemma format_results_ok:
  assumes "\<forall>d \<in> set docs. page_content d \<noteq> []"
  shows "\<exists>c. snd (format_results docs commits) = Inr c"
proof (cases "snd (format_results docs commits)")
  case (Inl err)
  with format_results_error [OF Inl] assms show ?thesis by blast
next
  case (Inr c)
  then show ?thesis by blast
qed

text \<open>
  C9. In the loop of \<open>search\<close>, index 0 of \<open>doc.page_content[:100].splitlines()\<close> is in
  bounds for every non-empty stored message and out of bounds for the empty message. So
  the loop ends with \<open>IndexError\<close> exactly when some result has an empty message, and it
  completes exactly when every result has a non-empty one.
\<close>

theorem first_line_index_in_bounds:
  "(s \<noteq> [] \<longrightarrow> 0 < length (splitlines (take 100 s))) \<and>
   \<not> 0 < length (splitlines (take 100 [])) \<and>
   (snd (format_results docs commits) = Inl IndexError \<longleftrightarrow>
      (\<exists>d \<in> set docs. page_content d = [])) \<and>
   ((\<exists>c. snd (format_results docs commits) = Inr c) \<longleftrightarrow>
      (\<forall>d \<in> set docs. page_content d \<noteq> []))"
proof -
  have a: "s \<noteq> [] \<longrightarrow> 0 < length (splitlines (take 100 s))"
    by (simp add: splitlines_Nil_iff)
  have b: "\<not> 0 < length (splitlines (take 100 []))"
    by (simp add: splitlines_def)
  have c: "snd (format_results docs commits) = Inl IndexError \<longleftrightarrow>
      (\<exists>d \<in> set docs. page_content d = [])"
    using format_results_error format_results_empty_message by blast
  have d: "(\<exists>c. snd (format_results docs commits) = Inr c) \<longleftrightarrow>
      (\<forall>d \<in> set docs. page_content d \<noteq> [])"
  proof
    assume ok: "\<exists>c. snd (format_results docs commits) = Inr c"
    show "\<forall>d \<in> set docs. page_content d \<noteq> []"
    proof (rule ccontr)
      assume "\<not> (\<forall>d \<in> set docs. page_content d \<noteq> [])"
      then have "\<exists>d \<in> set docs. page_content d = []" by blast
      then have "snd (format_results docs commits) = Inl IndexError"
        by (rule format_results_empty_message)
      with ok show False by simp
    qed
  next
    assume "\<forall>d \<in> set docs. page_content d \<noteq> []"
    then show "\<exists>c. snd (format_results docs commits) = Inr c"
      by (rule format_results_ok)
  qed
  from a b c d show ?thesis by blast
qed

theorem first_line_index_in_bounds_witness:
  "0 < length (splitlines (take 100 (str ''fix''))) \<and>
   snd (format_results [\<lparr>page_content = str ''fix'', metadata = []\<rparr>,
                        \<lparr>page_content = [], metadata = []\<rparr>] []) = Inl IndexError \<and>
   (\<exists>c. snd (format_results [\<lparr>page_content = str ''fix'', metadata = []\<rparr>] []) = Inr c)"
  using first_line_index_in_bounds [of "str ''fix''"
      "[\<lparr>page_content = str ''fix'', metadata = []\<rparr>, \<lparr>page_content = [], metadata = []\<rparr>]" "[]"]
    first_line_index_in_bounds [of "str ''fix''" "[\<lparr>page_content = str ''fix'', metadata = []\<rparr>]" "[]"]
  by (simp add: str_def)

section \<open>Traces\<close>

lemma fst_run_bind:
  "fst (run_bind m f) = fst m @ (case snd m of Inl err \<Rightarrow> [] | Inr x \<Rightarrow> fst (f x))"
  by (cases m) (auto simp: run_bind_def split: sum.splits prod.splits)

lemma snd_run_bind:
  "snd (run_bind m f) = (case snd m of Inl err \<Rightarrow> Inl err | Inr x \<Rightarrow> snd (f x))"
  by (cases m) (auto simp: run_bind_def split: sum.splits prod.splits)

lemma writes_append: "writes (xs @ ys) = writes xs @ writes ys"
  by (induction xs rule: writes.induct) auto

lemma reads_append: "reads (xs @ ys) = reads xs @ reads ys"
  by (induction xs rule: reads.induct) auto

lemma searches_append: "searches (xs @ ys) = searches xs @ searches ys"
  by (induction xs rule: searches.induct) auto

lemma get_embeddings_ok_silent: "get_embeddings e provider model = (es, Inr emb) \<Longrightarrow> es = []"
  by (auto simp: get_embeddings_def get_api_key_def get_api_key_openai_def exit_1_def ret_def
      run_bind_def split: if_splits option.splits)

lemma get_embeddings_quiet:
  "reads (fst (get_embeddings e provider model)) = [] \<and>
   searches (fst (get_embeddings e provider model)) = []"
  by (auto simp: get_embeddings_def get_api_key_def get_api_key_openai_def exit_1_def ret_def
      run_bind_def split: if_splits option.splits)

lemma get_llm_provider_quiet:
  "reads (fst (get_llm_provider e provider model)) = [] \<and>
   searches (fst (get_llm_provider e provider model)) = []"
  by (auto simp: get_llm_provider_def get_llm_provider_openai_def get_api_key_def
      get_api_key_openai_def exit_1_def ret_def run_bind_def split: if_splits option.splits)

lemma format_results_quiet:
  "reads (fst (format_results docs commits)) = [] \<and>
   searches (fst (format_results docs commits)) = []"
proof (induction docs arbitrary: commits)
  case Nil
  show ?case by (simp add: ret_def)
next
  case (Cons d docs)
  show ?case
  proof (cases "splitlines (take 100 (page_content d))")
    case Nil
    then show ?thesis by (simp add: raise_def)
  next
    case (Cons l ls)
    then show ?thesis
      using Cons.IH by (simp add: Let_def echo_def emit_def run_bind_Inr)
  qed
qed

lemma fst_read_json: "fst (read_json fs p) = [Read_text p]"
  by (simp add: read_json_def fst_run_bind emit_def raise_def ret_def
      split: option.splits content.splits)

section \<open>The pattern and the order of paths\<close>

lemma sorted_le_last:
  fixes xs :: "('a :: linorder) list"
  shows "sorted xs \<Longrightarrow> x \<in> set xs \<Longrightarrow> x \<le> last xs"
  by (induction xs) auto

lemma last_sort_greatest:
  fixes xs :: "('a :: linorder) list"
  assumes "xs \<noteq> []"
  shows "last (sort xs) \<in> set xs \<and> (\<forall>x \<in> set xs. x \<le> last (sort xs))"
proof -
  from assms have ne: "sort xs \<noteq> []"
    by (metis length_0_conv length_sort)
  then have "last (sort xs) \<in> set (sort xs)" by (rule last_in_set)
  then have a: "last (sort xs) \<in> set xs" by simp
  have "x \<le> last (sort xs)" if "x \<in> set xs" for x
  proof -
    from that have "x \<in> set (sort xs)" by simp
    then show ?thesis using sorted_sort [of xs] by (simp add: sorted_le_last)
  qed
  with a show ?thesis by blast
qed

lemma append_le_append: "(p @ a \<le> p @ b) \<longleftrightarrow> (a \<le> b)" for p a b :: "nat list"
  by (induction p) simp_all

lemma glob_match_Star:
  "glob_match (Star # ps) s \<longleftrightarrow> (\<exists>a b. s = a @ b \<and> glob_match ps b)"
proof (induction s)
  case Nil
  show ?case by simp
next
  case (Cons d s)
  show ?case
  proof
    assume "glob_match (Star # ps) (d # s)"
    then consider "glob_match ps (d # s)" | "glob_match (Star # ps) s" by auto
    then show "\<exists>a b. d # s = a @ b \<and> glob_match ps b"
    proof cases
      case 1
      then have "d # s = [] @ (d # s) \<and> glob_match ps (d # s)" by simp
      then show ?thesis by blast
    next
      case 2
      with Cons.IH obtain a b where "s = a @ b" "glob_match ps b" by blast
      then have "d # s = (d # a) @ b \<and> glob_match ps b" by simp
      then show ?thesis by blast
    qed
  next
    assume "\<exists>a b. d # s = a @ b \<and> glob_match ps b"
    then obtain a b where ab: "d # s = a @ b" "glob_match ps b" by blast
    show "glob_match (Star # ps) (d # s)"
    proof (cases a)
      case Nil
      with ab have "glob_match ps (d # s)" by simp
      then show ?thesis by simp
    next
      case (Cons x a')
      with ab have "s = a' @ b" by simp
      with ab Cons.IH have "glob_match (Star # ps) s" by blast
      then show ?thesis by simp
    qed
  qed
qed

lemma glob_match_Lits:
  "glob_match (map Lit l @ ps) s \<longleftrightarrow> (\<exists>b. s = l @ b \<and> glob_match ps b)"
proof (induction l arbitrary: s)
  case Nil
  show ?case by simp
next
  case (Cons c l)
  show ?case
  proof (cases s)
    case Nil
    then show ?thesis by simp
  next
    case (Cons d s')
    with Cons.IH [of s'] show ?thesis by auto
  qed
qed

lemma glob_match_embeddings_pattern:
  "glob_match embeddings_pattern name \<longleftrightarrow>
     (\<exists>a b. name = a @ str ''-embeddings-'' @ b @ str ''.json'')"
proof -
  have "glob_match (map Lit (str ''.json'')) s \<longleftrightarrow> s = str ''.json''" for s
    using glob_match_Lits [of "str ''.json''" "[]" s] by auto
  then show ?thesis
    unfolding embeddings_pattern_def
    by (simp add: glob_match_Star glob_match_Lits) blast
qed

lemma glob_iff:
  "p \<in> set (glob dir pat fs) \<longleftrightarrow>
     p \<in> fst ` set fs \<and> (\<exists>name. p = dir @ str ''/'' @ name \<and> 47 \<notin> set name \<and> glob_match pat name)"
proof -
  have sl: "str ''/'' = [47]" by (simp add: str_def)
  have "prefix (dir @ [47]) p \<longleftrightarrow> (\<exists>name. p = dir @ [47] @ name)"
    by (auto simp: prefix_def)
  moreover have "drop (length dir + 1) (dir @ [47] @ name) = name" for name
    by simp
  ultimately show ?thesis
    unfolding glob_def sl by auto
qed

section \<open>The command prepare\<close>

text \<open>
  What the extraction loop returns, in closed form: one record per entry that is not blank
  and has four fields, one printed line per entry that is not blank and has another number
  of fields, both in the order of the entries.
\<close>

lemma extract_loop_filter:
  "extract_loop es docs out =
     (docs @ map (\<lambda>en. \<lparr>page_content = split_max 0x1F 4 en ! 3,
                          metadata = [(str ''sha'', split_max 0x1F 4 en ! 0),
                                      (str ''author'', split_max 0x1F 4 en ! 1),
                                      (str ''date'', split_max 0x1F 4 en ! 2)]\<rparr>)
               (filter (\<lambda>en. strip en \<noteq> [] \<and> length (split_max 0x1F 4 en) = 4) es),
      out @ map (\<lambda>en. Print_skipping (split_max 0x1F 4 en))
               (filter (\<lambda>en. strip en \<noteq> [] \<and> length (split_max 0x1F 4 en) \<noteq> 4) es))"
  by (induction es arbitrary: docs out) (simp_all add: Let_def)

lemma writes_extract: "writes (snd (extract_commits_with_message raw)) = []"
proof -
  have "writes (map (\<lambda>en. Print_skipping (f en)) xs) = []" for f :: "pystr \<Rightarrow> pystr list" and xs
    by (induction xs) simp_all
  then show ?thesis
    by (simp add: extract_commits_with_message_def extract_loop_filter)
qed

text \<open>A run of \<open>prepare\<close> that completes has passed every step, and its trace is this one.\<close>

lemma prepare_trace:
  assumes "snd (prepare e folder provider model) = Inr u"
  shows "\<exists>out raw emb.
     exists (dotgit e) \<and>
     git_rev_parse e = Inr out \<and> git_log e = Inr raw \<and>
     get_embeddings e provider model = ([], Inr emb) \<and>
     fst (prepare e folder provider model) =
       [Echo Stdout (str ''Preparing embeddings for branch: '' @ strip out @ str '' at '' @ folder)] @
       snd (extract_commits_with_message raw) @
       [From_documents (fst (extract_commits_with_message raw)) emb
          (snd (get_embeddings_store_paths e)),
        Write_text (fst (get_embeddings_store_paths e))
          (payload (strip out) (utcnow_isoformat e @ str ''Z'') provider
             (length (fst (extract_commits_with_message raw))) folder
             (snd (get_embeddings_store_paths e))),
        Echo Stdout ([0x2705] @ str '' Embeddings indexed and stored in '' @
                     fst (get_embeddings_store_paths e))]"
proof -
  from assms have ex: "exists (dotgit e)"
    by (auto simp: prepare_def exit_1_def split: if_splits)
  from assms ex obtain out where out: "git_rev_parse e = Inr out"
    by (cases "git_rev_parse e") (auto simp: prepare_def lift_def run_bind_Inl split: prod.splits)
  from assms ex out obtain raw where raw: "git_log e = Inr raw"
    by (cases "git_log e")
      (auto simp: prepare_def lift_def run_bind_Inl run_bind_Inr echo_def emit_def Let_def
        split: prod.splits)
  obtain es r where ge: "get_embeddings e provider model = (es, r)"
    by (cases "get_embeddings e provider model")
  from assms ex out raw ge obtain emb where emb: "r = Inr emb"
    by (cases r)
      (auto simp: prepare_def lift_def run_bind_Inl run_bind_Inr echo_def emit_def Let_def
        split: prod.splits)
  from ge emb have es: "es = []" by (simp add: get_embeddings_ok_silent)
  from assms ex out raw ge emb es show ?thesis
    by (auto simp: prepare_def lift_def run_bind_Inl run_bind_Inr echo_def emit_def Let_def
        split: prod.splits option.splits)
qed

lemma prepare_writes:
  assumes "snd (prepare e folder provider model) = Inr u"
  shows "\<exists>out raw.
     git_rev_parse e = Inr out \<and> git_log e = Inr raw \<and>
     writes (fst (prepare e folder provider model)) =
       [(fst (get_embeddings_store_paths e),
         payload (strip out) (utcnow_isoformat e @ str ''Z'') provider
           (length (fst (extract_commits_with_message raw))) folder
           (snd (get_embeddings_store_paths e)))]"
proof -
  from prepare_trace [OF assms] obtain out raw emb where
    out: "git_rev_parse e = Inr out" and raw: "git_log e = Inr raw" and
    tr: "fst (prepare e folder provider model) =
       [Echo Stdout (str ''Preparing embeddings for branch: '' @ strip out @ str '' at '' @ folder)] @
       snd (extract_commits_with_message raw) @
       [From_documents (fst (extract_commits_with_message raw)) emb
          (snd (get_embeddings_store_paths e)),
        Write_text (fst (get_embeddings_store_paths e))
          (payload (strip out) (utcnow_isoformat e @ str ''Z'') provider
             (length (fst (extract_commits_with_message raw))) folder
             (snd (get_embeddings_store_paths e))),
        Echo Stdout ([0x2705] @ str '' Embeddings indexed and stored in '' @
                     fst (get_embeddings_store_paths e))]"
    by blast
  have "writes (fst (prepare e folder provider model)) =
      [(fst (get_embeddings_store_paths e),
        payload (strip out) (utcnow_isoformat e @ str ''Z'') provider
          (length (fst (extract_commits_with_message raw))) folder
          (snd (get_embeddings_store_paths e)))]"
    by (simp add: tr writes_append writes_extract)
  with out raw show ?thesis by blast
qed

text \<open>Evaluating the commands on concrete inputs.\<close>

lemmas eval_run =
  lift_def run_bind_Inr run_bind_Inl echo_def emit_def ret_def raise_def exit_1_def Let_def

lemmas eval_strings =
  split_def strip_def isspace_def split_max_4 strftime_def zero_pad_def str_of_nat.simps
  replace_char_def root_dir_def str_def

lemmas eval_prepare =
  prepare_def exists_def get_embeddings_store_paths_def get_embeddings_def get_api_key_def
  get_api_key_openai_def extract_commits_with_message_def payload_def

lemma prepare_repo_env:
  "prepare repo_env (str ''/home/u/my repo'') (str ''hf'') (str ''bge'') =
     ([Echo Stdout (str ''Preparing embeddings for branch: main at /home/u/my repo''),
       From_documents
         [\<lparr>page_content = str ''fix'',
           metadata = [(str ''sha'', str ''a1''), (str ''author'', str ''Ann''),
                       (str ''date'', str ''Mon'')]\<rparr>,
          \<lparr>page_content = str ''init'',
           metadata = [(str ''sha'', 10 # str ''b2''), (str ''author'', str ''Bob''),
                       (str ''date'', str ''Sun'')]\<rparr>]
         (HuggingFaceEmbeddings (str ''bge''))
         (str ''.tmp/.git_gpt_chroma_db_20250309140507''),
       Write_text (str ''.tmp/my_repo-embeddings-20250309140507.json'')
         (JObj [(str ''branch'', JStr (str ''main'')),
                (str ''created_at'', JStr (str ''2025-03-09T14:05:09.250000Z'')),
                (str ''provider'', JStr (str ''hf'')),
                (str ''doc_count'', JInt 2),
                (str ''path'', JStr (str ''/home/u/my repo'')),
                (str ''chroma_dir'', JStr (str ''.tmp/.git_gpt_chroma_db_20250309140507''))]),
       Echo Stdout (9989 # str '' Embeddings indexed and stored in .tmp/my_repo-embeddings-20250309140507.json'')],
      Inr ())"
  by (simp add: eval_prepare eval_run eval_strings repo_env_def)

text \<open>
  C5. A run of \<open>prepare\<close> that completes writes exactly one file. Its name is
  \<open>.tmp/<folder name>-embeddings-<timestamp>.json\<close>; its content is a JSON object with
  exactly the keys \<open>branch\<close>, \<open>created_at\<close>, \<open>provider\<close>, \<open>doc_count\<close>, \<open>path\<close> and
  \<open>chroma_dir\<close>, and \<open>doc_count\<close> is the number of commit records extracted from the log.
\<close>

theorem prepare_writes_one_metadata_file:
  assumes "snd (prepare e folder provider model) = Inr u"
  shows "\<exists>raw kvs.
     git_log e = Inr raw \<and>
     writes (fst (prepare e folder provider model)) =
       [(root_dir @ str ''/'' @ replace_char 32 95 (resolved_name e) @ str ''-embeddings-'' @
           strftime (now e) @ str ''.json'', JObj kvs)] \<and>
     map fst kvs = [str ''branch'', str ''created_at'', str ''provider'', str ''doc_count'',
                    str ''path'', str ''chroma_dir''] \<and>
     map_of kvs (str ''doc_count'') =
       Some (JInt (int (length (fst (extract_commits_with_message raw)))))"
proof -
  from prepare_writes [OF assms] obtain out raw where
    raw: "git_log e = Inr raw" and
    w: "writes (fst (prepare e folder provider model)) =
      [(fst (get_embeddings_store_paths e),
        payload (strip out) (utcnow_isoformat e @ str ''Z'') provider
          (length (fst (extract_commits_with_message raw))) folder
          (snd (get_embeddings_store_paths e)))]"
    by blast
  have k: "str ''doc_count'' \<noteq> str ''branch''" "str ''doc_count'' \<noteq> str ''created_at''"
    "str ''doc_count'' \<noteq> str ''provider''"
    by (simp_all add: str_def)
  from raw w k show ?thesis
    by (simp add: payload_def get_embeddings_store_paths_def Let_def)
qed

theorem prepare_writes_one_metadata_file_witness:
  "\<exists>kvs.
     writes (fst (prepare repo_env (str ''/home/u/my repo'') (str ''hf'') (str ''bge''))) =
       [(str ''.tmp/my_repo-embeddings-20250309140507.json'', JObj kvs)] \<and>
     map fst kvs = [str ''branch'', str ''created_at'', str ''provider'', str ''doc_count'',
                    str ''path'', str ''chroma_dir''] \<and>
     map_of kvs (str ''doc_count'') = Some (JInt 2)"
proof -
  have "snd (prepare repo_env (str ''/home/u/my repo'') (str ''hf'') (str ''bge'')) = Inr ()"
    by (simp add: prepare_repo_env)
  from prepare_writes_one_metadata_file [OF this] obtain raw kvs where
    raw: "git_log repo_env = Inr raw" and
    w: "writes (fst (prepare repo_env (str ''/home/u/my repo'') (str ''hf'') (str ''bge''))) =
       [(root_dir @ str ''/'' @ replace_char 32 95 (resolved_name repo_env) @ str ''-embeddings-'' @
           strftime (now repo_env) @ str ''.json'', JObj kvs)]" and
    k: "map fst kvs = [str ''branch'', str ''created_at'', str ''provider'', str ''doc_count'',
                    str ''path'', str ''chroma_dir'']" and
    c: "map_of kvs (str ''doc_count'') =
       Some (JInt (int (length (fst (extract_commits_with_message raw)))))"
    by auto
  from raw have "length (fst (extract_commits_with_message raw)) = 2"
    by (auto simp: repo_env_def extract_commits_with_message_def eval_strings)
  with c have c2: "map_of kvs (str ''doc_count'') = Some (JInt 2)" by simp
  have "root_dir @ str ''/'' @ replace_char 32 95 (resolved_name repo_env) @ str ''-embeddings-'' @
           strftime (now repo_env) @ str ''.json'' = str ''.tmp/my_repo-embeddings-20250309140507.json''"
    by (simp add: repo_env_def eval_strings)
  with w k c2 show ?thesis by simp
qed

section \<open>The command search: which file, which directory\<close>

lemmas eval_search =
  search_def glob_def embeddings_pattern_def read_json_def subscript_def get_llm_provider_def
  get_llm_provider_openai_def fmt_def splitlines_def is_linebreak_def

lemma glob_store_env:
  "glob root_dir embeddings_pattern (files store_env) =
     [str ''.tmp/my_repo-embeddings-20250309140507.json'',
      str ''.tmp/a_repo-embeddings-20250401000000.json'']"
  by (simp add: store_env_def repo_env_def eval_search eval_strings)

lemma latest_store_env:
  "last (sort (glob root_dir embeddings_pattern (files store_env))) =
     str ''.tmp/my_repo-embeddings-20250309140507.json''"
  by (simp add: glob_store_env) (simp add: str_def)

lemma search_reads:
  assumes "length query \<le> 200" and "glob root_dir embeddings_pattern (files e) \<noteq> []"
  shows "reads (fst (search e query provider model summarize llm_provider llm_model k)) =
    [last (sort (glob root_dir embeddings_pattern (files e)))]"
  using assms
  by (simp add: search_def Let_def fst_run_bind reads_append fst_read_json lift_def emit_def echo_def
      format_results_quiet get_embeddings_quiet get_llm_provider_quiet ret_def
      split: sum.splits)

lemma search_searches:
  assumes "length query \<le> 200" and "glob root_dir embeddings_pattern (files e) \<noteq> []"
    and "map_of (files e) (last (sort (glob root_dir embeddings_pattern (files e)))) =
           Some (Text_json (JObj kvs))"
    and "map_of kvs (str ''chroma_dir'') = Some dir"
    and "snd (get_embeddings e provider model) = Inr emb"
  shows "searches (fst (search e query provider model summarize llm_provider llm_model k)) =
    [(dir, emb, query, k)]"
  using assms
  by (simp add: search_def Let_def fst_run_bind snd_run_bind searches_append read_json_def
      subscript_def lift_def emit_def echo_def
      format_results_quiet get_embeddings_quiet get_llm_provider_quiet ret_def
      split: sum.splits)

text \<open>
  C3. For a query within the length limit and a store directory with at least one file whose
  name matches \<open>*-embeddings-*.json\<close>, \<open>search\<close> reads exactly one file: the matching
  file whose name is the greatest in the lexicographic order, not the one written last.
  When that file holds a JSON object with a \<open>chroma_dir\<close> and the embedding provider can be
  constructed, the one similarity search of the run is made against that directory.
\<close>

theorem search_uses_latest_metadata_file:
  assumes "length query \<le> 200" and "glob root_dir embeddings_pattern (files e) \<noteq> []"
  shows "\<exists>name.
     reads (fst (search e query provider model summarize llm_provider llm_model k)) =
       [root_dir @ str ''/'' @ name] \<and>
     root_dir @ str ''/'' @ name \<in> fst ` set (files e) \<and> 47 \<notin> set name \<and>
     (\<exists>a b. name = a @ str ''-embeddings-'' @ b @ str ''.json'') \<and>
     (\<forall>other a b.
        root_dir @ str ''/'' @ other \<in> fst ` set (files e) \<and> 47 \<notin> set other \<and>
        other = a @ str ''-embeddings-'' @ b @ str ''.json'' \<longrightarrow> other \<le> name) \<and>
     (\<forall>kvs dir emb.
        map_of (files e) (root_dir @ str ''/'' @ name) = Some (Text_json (JObj kvs)) \<and>
        map_of kvs (str ''chroma_dir'') = Some dir \<and>
        snd (get_embeddings e provider model) = Inr emb \<longrightarrow>
        searches (fst (search e query provider model summarize llm_provider llm_model k)) =
          [(dir, emb, query, k)])"
proof -
  let ?found = "glob root_dir embeddings_pattern (files e)"
  let ?latest = "last (sort ?found)"
  from last_sort_greatest [OF assms(2)] have
    mem: "?latest \<in> set ?found" and greatest: "\<forall>p \<in> set ?found. p \<le> ?latest"
    by blast+
  from mem obtain name where
    infs: "?latest \<in> fst ` set (files e)" and
    name: "?latest = root_dir @ str ''/'' @ name" and noslash: "47 \<notin> set name" and
    matches: "glob_match embeddings_pattern name"
    unfolding glob_iff by blast
  have r: "reads (fst (search e query provider model summarize llm_provider llm_model k)) =
       [root_dir @ str ''/'' @ name]"
    using search_reads [OF assms] name by simp
  have shape: "\<exists>a b. name = a @ str ''-embeddings-'' @ b @ str ''.json''"
    using matches by (simp add: glob_match_embeddings_pattern)
  have others: "other \<le> name"
    if "root_dir @ str ''/'' @ other \<in> fst ` set (files e)" and "47 \<notin> set other"
      and "other = a @ str ''-embeddings-'' @ b @ str ''.json''" for other a b
  proof -
    from that(3) have "glob_match embeddings_pattern other"
      unfolding glob_match_embeddings_pattern by blast
    with that(1,2) have "root_dir @ str ''/'' @ other \<in> set ?found"
      unfolding glob_iff by blast
    with greatest have "root_dir @ str ''/'' @ other \<le> ?latest" by blast
    with name have "(root_dir @ str ''/'') @ other \<le> (root_dir @ str ''/'') @ name" by simp
    then show ?thesis by (simp only: append_le_append)
  qed
  have s: "searches (fst (search e query provider model summarize llm_provider llm_model k)) =
          [(dir, emb, query, k)]"
    if "map_of (files e) (root_dir @ str ''/'' @ name) = Some (Text_json (JObj kvs))"
      and "map_of kvs (str ''chroma_dir'') = Some dir"
      and "snd (get_embeddings e provider model) = Inr emb" for kvs dir emb
    using search_searches [OF assms _ that(2,3)] that(1) name by simp
  from infs name have infs': "root_dir @ str ''/'' @ name \<in> fst ` set (files e)"
    by simp
  from others have others':
    "\<forall>other a b.
        root_dir @ str ''/'' @ other \<in> fst ` set (files e) \<and> 47 \<notin> set other \<and>
        other = a @ str ''-embeddings-'' @ b @ str ''.json'' \<longrightarrow> other \<le> name"
    by blast
  from s have s':
    "\<forall>kvs dir emb.
        map_of (files e) (root_dir @ str ''/'' @ name) = Some (Text_json (JObj kvs)) \<and>
        map_of kvs (str ''chroma_dir'') = Some dir \<and>
        snd (get_embeddings e provider model) = Inr emb \<longrightarrow>
        searches (fst (search e query provider model summarize llm_provider llm_model k)) =
          [(dir, emb, query, k)]"
    by blast
  show ?thesis
    by (rule exI [of _ name]) (intro conjI r infs' noslash shape others' s')
qed


theorem search_uses_latest_metadata_file_witness:
  "reads (fst (search store_env (str ''bug'') (str ''hf'') (str ''bge'') False (str ''openai'')
                 (str ''gpt'') 5)) =
     [str ''.tmp/my_repo-embeddings-20250309140507.json''] \<and>
   searches (fst (search store_env (str ''bug'') (str ''hf'') (str ''bge'') False (str ''openai'')
                    (str ''gpt'') 5)) =
     [(JStr (str ''.tmp/.git_gpt_chroma_db_20250309140507''), HuggingFaceEmbeddings (str ''bge''),
       str ''bug'', 5)]"
proof -
  let ?run = "search store_env (str ''bug'') (str ''hf'') (str ''bge'') False (str ''openai'')
                 (str ''gpt'') 5"
  have h1: "length (str ''bug'') \<le> 200" by (simp add: str_def)
  have h2: "glob root_dir embeddings_pattern (files store_env) \<noteq> []"
    by (simp add: glob_store_env)
  from search_uses_latest_metadata_file [OF h1 h2, of "str ''hf''" "str ''bge''" False
      "str ''openai''" "str ''gpt''" 5]
  obtain name where
    r: "reads (fst ?run) = [root_dir @ str ''/'' @ name]" and
    s: "\<forall>kvs dir emb.
        map_of (files store_env) (root_dir @ str ''/'' @ name) = Some (Text_json (JObj kvs)) \<and>
        map_of kvs (str ''chroma_dir'') = Some dir \<and>
        snd (get_embeddings store_env (str ''hf'') (str ''bge'')) = Inr emb \<longrightarrow>
        searches (fst ?run) = [(dir, emb, str ''bug'', 5)]"
    by blast
  have "reads (fst ?run) = [str ''.tmp/my_repo-embeddings-20250309140507.json'']"
    using search_reads [OF h1 h2] by (simp add: latest_store_env)
  with r have name: "root_dir @ str ''/'' @ name = str ''.tmp/my_repo-embeddings-20250309140507.json''"
    by simp
  have f: "map_of (files store_env) (str ''.tmp/my_repo-embeddings-20250309140507.json'') =
      Some (Text_json (JObj [(str ''branch'', JStr (str ''main'')),
                (str ''created_at'', JStr (str ''2025-03-09T14:05:09.250000Z'')),
                (str ''provider'', JStr (str ''hf'')),
                (str ''doc_count'', JInt 2),
                (str ''path'', JStr (str ''/home/u/my repo'')),
                (str ''chroma_dir'', JStr (str ''.tmp/.git_gpt_chroma_db_20250309140507''))]))"
    by (simp add: store_env_def payload_def)
  have c: "map_of [(str ''branch'', JStr (str ''main'')),
                (str ''created_at'', JStr (str ''2025-03-09T14:05:09.250000Z'')),
                (str ''provider'', JStr (str ''hf'')),
                (str ''doc_count'', JInt 2),
                (str ''path'', JStr (str ''/home/u/my repo'')),
                (str ''chroma_dir'', JStr (str ''.tmp/.git_gpt_chroma_db_20250309140507''))]
             (str ''chroma_dir'') = Some (JStr (str ''.tmp/.git_gpt_chroma_db_20250309140507''))"
    by (simp add: str_def)
  have g: "snd (get_embeddings store_env (str ''hf'') (str ''bge'')) =
      Inr (HuggingFaceEmbeddings (str ''bge''))"
    by (simp add: get_embeddings_def ret_def)
  from s name f c g have "searches (fst ?run) =
    [(JStr (str ''.tmp/.git_gpt_chroma_db_20250309140507''), HuggingFaceEmbeddings (str ''bge''),
       str ''bug'', 5)]"
    by simp
  with \<open>reads (fst ?run) = [str ''.tmp/my_repo-embeddings-20250309140507.json'']\<close>
  show ?thesis by simp
qed

lemma glob_empty_iff:
  "glob root_dir embeddings_pattern fs = [] \<longleftrightarrow>
     (\<forall>name a b. root_dir @ str ''/'' @ name \<in> fst ` set fs \<and> 47 \<notin> set name \<longrightarrow>
        name \<noteq> a @ str ''-embeddings-'' @ b @ str ''.json'')"
proof
  assume empty: "glob root_dir embeddings_pattern fs = []"
  show "\<forall>name a b. root_dir @ str ''/'' @ name \<in> fst ` set fs \<and> 47 \<notin> set name \<longrightarrow>
        name \<noteq> a @ str ''-embeddings-'' @ b @ str ''.json''"
  proof (intro allI impI notI)
    fix name a b
    assume h: "root_dir @ str ''/'' @ name \<in> fst ` set fs \<and> 47 \<notin> set name"
      and n: "name = a @ str ''-embeddings-'' @ b @ str ''.json''"
    from n have "glob_match embeddings_pattern name"
      unfolding glob_match_embeddings_pattern by blast
    with h have "root_dir @ str ''/'' @ name \<in> set (glob root_dir embeddings_pattern fs)"
      unfolding glob_iff by blast
    with empty show False by simp
  qed
next
  assume none: "\<forall>name a b. root_dir @ str ''/'' @ name \<in> fst ` set fs \<and> 47 \<notin> set name \<longrightarrow>
        name \<noteq> a @ str ''-embeddings-'' @ b @ str ''.json''"
  show "glob root_dir embeddings_pattern fs = []"
  proof (rule ccontr)
    assume "glob root_dir embeddings_pattern fs \<noteq> []"
    then obtain p where "p \<in> set (glob root_dir embeddings_pattern fs)"
      by (cases "glob root_dir embeddings_pattern fs") auto
    then obtain name where p: "p \<in> fst ` set fs" "p = root_dir @ str ''/'' @ name"
      "47 \<notin> set name" "glob_match embeddings_pattern name"
      unfolding glob_iff by blast
    from p(4) obtain a b where ab: "name = a @ str ''-embeddings-'' @ b @ str ''.json''"
      unfolding glob_match_embeddings_pattern by blast
    from p(1,2) have "root_dir @ str ''/'' @ name \<in> fst ` set fs" by simp
    with none p(3) have "name \<noteq> a @ str ''-embeddings-'' @ b @ str ''.json''" by simp
    with ab show False by simp
  qed
qed


text \<open>
  C2, as stated, fails for \<open>prepare\<close>: the check is \<open>(folder / ".git").exists()\<close>, so a
  folder whose \<open>.git\<close> is a regular file has no \<open>.git\<close> subdirectory and is still accepted;
  the run below completes.
\<close>

theorem prepare_accepts_dotgit_file:
  "dotgit worktree_env = Regular_file \<and>
   snd (prepare worktree_env (str ''/home/u/my repo'') (str ''hf'') (str ''bge'')) = Inr ()"
  by (simp add: worktree_env_def eval_prepare eval_run eval_strings repo_env_def)

text \<open>
  C2, amended. \<open>prepare\<close> exits with code 1 when the folder has no entry named \<open>.git\<close> at
  all; \<open>search\<close> exits with code 1 when the query is longer than 200 characters, and when
  no file directly under \<open>.tmp\<close> has a name of the shape \<open>*-embeddings-*.json\<close>.
\<close>

theorem precondition_failures_exit_1:
  "(dotgit e = Absent \<longrightarrow>
      prepare e folder provider model =
        ([Echo Stderr (str ''Error: provided folder is missing or is not a Git repository'')],
         Inl (Exit 1))) \<and>
   (length query > 200 \<longrightarrow>
      search e query provider model summarize llm_provider llm_model k =
        ([Echo Stderr (str ''Error: Query exceeds 200 characters.'')], Inl (Exit 1))) \<and>
   ((\<forall>name a b. root_dir @ str ''/'' @ name \<in> fst ` set (files e) \<and> 47 \<notin> set name \<longrightarrow>
        name \<noteq> a @ str ''-embeddings-'' @ b @ str ''.json'') \<longrightarrow>
      snd (search e query provider model summarize llm_provider llm_model k) = Inl (Exit 1))"
proof -
  have a: "dotgit e = Absent \<longrightarrow>
      prepare e folder provider model =
        ([Echo Stderr (str ''Error: provided folder is missing or is not a Git repository'')],
         Inl (Exit 1))"
    by (simp add: prepare_def exists_def exit_1_def)
  have b: "length query > 200 \<longrightarrow>
      search e query provider model summarize llm_provider llm_model k =
        ([Echo Stderr (str ''Error: Query exceeds 200 characters.'')], Inl (Exit 1))"
    by (simp add: search_def exit_1_def)
  have c: "snd (search e query provider model summarize llm_provider llm_model k) = Inl (Exit 1)"
    if "glob root_dir embeddings_pattern (files e) = []"
    using that by (simp add: search_def exit_1_def)
  from a b c show ?thesis
    unfolding glob_empty_iff by blast
qed

theorem precondition_failures_exit_1_witness:
  "prepare (repo_env\<lparr>dotgit := Absent\<rparr>) (str ''/tmp/x'') (str ''hf'') (str ''bge'') =
     ([Echo Stderr (str ''Error: provided folder is missing or is not a Git repository'')],
      Inl (Exit 1)) \<and>
   search store_env (replicate 201 97) (str ''hf'') (str ''bge'') False (str ''openai'') (str ''gpt'') 5 =
     ([Echo Stderr (str ''Error: Query exceeds 200 characters.'')], Inl (Exit 1)) \<and>
   snd (search repo_env (str ''bug'') (str ''hf'') (str ''bge'') False (str ''openai'') (str ''gpt'') 5) =
     Inl (Exit 1)"
  using precondition_failures_exit_1 [where e = "repo_env\<lparr>dotgit := Absent\<rparr>"
      and folder = "str ''/tmp/x''" and provider = "str ''hf''" and model = "str ''bge''"]
    precondition_failures_exit_1 [where e = store_env and query = "replicate 201 97"
      and provider = "str ''hf''" and model = "str ''bge''" and summarize = False
      and llm_provider = "str ''openai''" and llm_model = "str ''gpt''" and k = 5]
    precondition_failures_exit_1 [where e = repo_env and query = "str ''bug''"
      and provider = "str ''hf''" and model = "str ''bge''" and summarize = False
      and llm_provider = "str ''openai''" and llm_model = "str ''gpt''" and k = 5]
  by (simp add: repo_env_def)

section \<open>Sequences of prepare invocations\<close>

lemma write_text_names: "fst ` set (write_text p c fs) = insert p (fst ` set fs)"
proof (induction fs)
  case Nil
  show ?case by simp
next
  case (Cons x fs)
  obtain q d where x: "x = (q, d)" by (cases x)
  show ?case
  proof (cases "q = p")
    case True
    with x show ?thesis by simp
  next
    case False
    with x Cons show ?thesis by (simp add: insert_commute)
  qed
qed

lemma write_text_distinct:
  "distinct (map fst fs) \<Longrightarrow> distinct (map fst (write_text p c fs))"
proof (induction fs)
  case Nil
  show ?case by simp
next
  case (Cons x fs)
  obtain q d where x: "x = (q, d)" by (cases x)
  have "set (map fst (write_text p c fs)) = insert p (fst ` set fs)"
    using write_text_names [of p c fs] by simp
  with Cons x show ?case by auto
qed

lemma files_after_distinct:
  "distinct (map fst fs) \<Longrightarrow> distinct (map fst (files_after evs fs))"
  by (induction evs fs rule: files_after.induct) (simp_all add: write_text_distinct)

lemma files_after_names:
  "fst ` set (files_after evs fs) = fst ` set fs \<union> fst ` set (writes evs)"
  by (induction evs fs rule: files_after.induct) (auto simp: write_text_names)

lemma prepare_all_distinct:
  "distinct (map fst fs) \<Longrightarrow> distinct (map fst (prepare_all invs fs))"
  by (induction invs fs rule: prepare_all.induct) (simp_all add: files_after_distinct)

lemma get_embeddings_writes: "writes (fst (get_embeddings e provider model)) = []"
  by (auto simp: get_embeddings_def get_api_key_def get_api_key_openai_def exit_1_def ret_def
      run_bind_def split: if_splits option.splits)

lemma writes_extracted: "extract_commits_with_message raw = (docs, out) \<Longrightarrow> writes out = []"
  using writes_extract [of raw] by simp

lemma prepare_writes_path:
  "fst ` set (writes (fst (prepare e folder provider model))) \<subseteq> {fst (get_embeddings_store_paths e)}"
  by (auto simp: prepare_def exit_1_def fst_run_bind snd_run_bind writes_append writes_extracted
      get_embeddings_writes lift_def echo_def emit_def Let_def
      split: sum.splits prod.splits option.splits if_splits)

lemma prepare_all_names:
  "fst ` set (prepare_all invs fs) \<subseteq>
     fst ` set fs \<union> (\<lambda>(e, folder, provider, model). fst (get_embeddings_store_paths e)) ` set invs"
proof (induction invs fs rule: prepare_all.induct)
  case (1 fs)
  show ?case by simp
next
  case (2 e folder provider model rest fs)
  have "fst ` set (files_after (fst (prepare e folder provider model)) fs) \<subseteq>
      fst ` set fs \<union> {fst (get_embeddings_store_paths e)}"
    using prepare_writes_path [of e folder provider model] by (auto simp: files_after_names)
  with 2 show ?case by auto
qed

lemma length_str_of_nat_10: "n < 10 \<Longrightarrow> length (str_of_nat n) = 1"
  by (simp add: str_of_nat.simps)

lemma length_str_of_nat_100: "n < 100 \<Longrightarrow> length (str_of_nat n) \<le> 2"
  by (subst str_of_nat.simps) (simp add: length_str_of_nat_10)

lemma length_str_of_nat_1000: "n < 1000 \<Longrightarrow> length (str_of_nat n) \<le> 3"
proof -
  assume "n < 1000"
  then have "n div 10 < 100" by simp
  then have "length (str_of_nat (n div 10)) \<le> 2" by (rule length_str_of_nat_100)
  then show ?thesis by (subst str_of_nat.simps) simp
qed

lemma length_str_of_nat_10000: "n < 10000 \<Longrightarrow> length (str_of_nat n) \<le> 4"
proof -
  assume "n < 10000"
  then have "n div 10 < 1000" by simp
  then have "length (str_of_nat (n div 10)) \<le> 3" by (rule length_str_of_nat_1000)
  then show ?thesis by (subst str_of_nat.simps) simp
qed

lemma length_zero_pad: "length (str_of_nat n) \<le> w \<Longrightarrow> length (zero_pad w n) = w"
  by (simp add: zero_pad_def)

lemma length_strftime: "valid_datetime t \<Longrightarrow> length (strftime t) = 14"
  by (simp add: valid_datetime_def strftime_def length_zero_pad length_str_of_nat_100
      length_str_of_nat_10000)

lemma embed_path_inject:
  assumes "length t1 = length t2"
  shows "root_dir @ str ''/'' @ n1 @ str ''-embeddings-'' @ t1 @ str ''.json'' =
         root_dir @ str ''/'' @ n2 @ str ''-embeddings-'' @ t2 @ str ''.json'' \<longleftrightarrow>
         n1 = n2 \<and> t1 = t2"
proof -
  from assms have "length (str ''-embeddings-'' @ t1 @ str ''.json'') =
      length (str ''-embeddings-'' @ t2 @ str ''.json'')"
    by simp
  then have "n1 @ (str ''-embeddings-'' @ t1 @ str ''.json'') =
      n2 @ (str ''-embeddings-'' @ t2 @ str ''.json'') \<longleftrightarrow>
      n1 = n2 \<and> str ''-embeddings-'' @ t1 @ str ''.json'' = str ''-embeddings-'' @ t2 @ str ''.json''"
    by (metis append_eq_append_conv)
  then show ?thesis by simp
qed


lemma store_paths_repo_env:
  "get_embeddings_store_paths repo_env =
     (str ''.tmp/my_repo-embeddings-20250309140507.json'', str ''.tmp/.git_gpt_chroma_db_20250309140507'')"
  by (simp add: get_embeddings_store_paths_def repo_env_def eval_strings)

lemma store_paths_other_env:
  "get_embeddings_store_paths other_env =
     (str ''.tmp/other-embeddings-20250309140507.json'', str ''.tmp/.git_gpt_chroma_db_20250309140507'')"
  by (simp add: get_embeddings_store_paths_def other_env_def repo_env_def eval_strings)

lemma prepare_other_env_ok:
  "snd (prepare other_env (str ''/srv/other'') (str ''hf'') (str ''bge'')) = Inr ()"
  by (simp add: other_env_def eval_prepare eval_run eval_strings repo_env_def)

lemma files_after_writes:
  "files_after evs fs = fold (\<lambda>(p, j). write_text p (Text_json j)) (writes evs) fs"
  by (induction evs fs rule: files_after.induct) simp_all

lemma files_after_single:
  "writes evs = [(p, j)] \<Longrightarrow> files_after evs fs = write_text p (Text_json j) fs"
  by (simp add: files_after_writes)

text \<open>
  C6, as stated, fails: the file name carries the folder name before the timestamp, so two
  invocations that read the same second from the clock, for folders of different names,
  leave two metadata files with that timestamp (and share one vector-store directory).
\<close>

theorem two_metadata_files_for_one_timestamp:
  "strftime (now repo_env) = str ''20250309140507'' \<and>
   strftime (now other_env) = str ''20250309140507'' \<and>
   length (filter (named_with_timestamp (str ''20250309140507''))
     (map fst (prepare_all
        [(repo_env, str ''/home/u/my repo'', str ''hf'', str ''bge''),
         (other_env, str ''/srv/other'', str ''hf'', str ''bge'')] []))) = 2"
proof -
  have t: "strftime (now repo_env) = str ''20250309140507''"
    "strftime (now other_env) = str ''20250309140507''"
    by (simp_all add: other_env_def repo_env_def eval_strings)
  have "snd (prepare repo_env (str ''/home/u/my repo'') (str ''hf'') (str ''bge'')) = Inr ()"
    by (simp add: prepare_repo_env)
  from prepare_writes [OF this] obtain out1 raw1 where
    w1: "writes (fst (prepare repo_env (str ''/home/u/my repo'') (str ''hf'') (str ''bge''))) =
      [(str ''.tmp/my_repo-embeddings-20250309140507.json'',
        payload (strip out1) (utcnow_isoformat repo_env @ str ''Z'') (str ''hf'')
           (length (fst (extract_commits_with_message raw1))) (str ''/home/u/my repo'')
           (str ''.tmp/.git_gpt_chroma_db_20250309140507''))]"
    by (auto simp: store_paths_repo_env)
  from prepare_writes [OF prepare_other_env_ok] obtain out2 raw2 where
    w2: "writes (fst (prepare other_env (str ''/srv/other'') (str ''hf'') (str ''bge''))) =
      [(str ''.tmp/other-embeddings-20250309140507.json'',
        payload (strip out2) (utcnow_isoformat other_env @ str ''Z'') (str ''hf'')
           (length (fst (extract_commits_with_message raw2))) (str ''/srv/other'')
           (str ''.tmp/.git_gpt_chroma_db_20250309140507''))]"
    by (auto simp: store_paths_other_env)
  have ne: "str ''.tmp/my_repo-embeddings-20250309140507.json'' \<noteq>
      str ''.tmp/other-embeddings-20250309140507.json''"
    by (simp add: str_def)
  have n1: "named_with_timestamp (str ''20250309140507'') (str ''.tmp/my_repo-embeddings-20250309140507.json'')"
    by (simp add: named_with_timestamp_def suffix_to_prefix root_dir_def str_def)
  have n2: "named_with_timestamp (str ''20250309140507'') (str ''.tmp/other-embeddings-20250309140507.json'')"
    by (simp add: named_with_timestamp_def suffix_to_prefix root_dir_def str_def)
  have "length (filter (named_with_timestamp (str ''20250309140507''))
     (map fst (prepare_all
        [(repo_env, str ''/home/u/my repo'', str ''hf'', str ''bge''),
         (other_env, str ''/srv/other'', str ''hf'', str ''bge'')] []))) = 2"
    using ne n1 n2 by (simp add: files_after_single [OF w1] files_after_single [OF w2])
  with t show ?thesis by simp
qed

lemma map_of_write_text:
  "map_of (write_text p c fs) q = (if q = p then Some c else map_of fs q)"
  by (induction fs) auto

lemma prepare_failed_writes:
  assumes "snd (prepare e folder provider model) = Inl err"
  shows "writes (fst (prepare e folder provider model)) = []"
  using assms
  by (auto simp: prepare_def exit_1_def fst_run_bind snd_run_bind writes_append
      get_embeddings_writes lift_def echo_def emit_def Let_def
      dest: writes_extracted
      split: sum.splits prod.splits option.splits if_splits)

lemma files_after_failed:
  "snd (prepare e folder provider model) = Inl err \<Longrightarrow>
   files_after (fst (prepare e folder provider model)) fs = fs"
  by (simp add: files_after_writes prepare_failed_writes)

lemma prepare_all_append: "prepare_all (xs @ ys) fs = prepare_all ys (prepare_all xs fs)"
  by (induction xs fs rule: prepare_all.induct) simp_all

lemma files_after_prepare_other:
  assumes "\<not> (snd (prepare e folder provider model) = Inr () \<and>
              q = fst (get_embeddings_store_paths e))"
  shows "map_of (files_after (fst (prepare e folder provider model)) fs) q = map_of fs q"
proof (cases "snd (prepare e folder provider model)")
  case (Inl err)
  then show ?thesis by (simp add: files_after_failed)
next
  case (Inr u)
  with assms have q: "q \<noteq> fst (get_embeddings_store_paths e)" by simp
  from prepare_writes [OF Inr] obtain out raw where
    "writes (fst (prepare e folder provider model)) =
       [(fst (get_embeddings_store_paths e),
         payload (strip out) (utcnow_isoformat e @ str ''Z'') provider
           (length (fst (extract_commits_with_message raw))) folder
           (snd (get_embeddings_store_paths e)))]"
    by auto
  with q show ?thesis
    by (simp add: files_after_single map_of_write_text)
qed

lemma prepare_all_untouched:
  "(\<forall>(e, folder, provider, model) \<in> set invs.
      snd (prepare e folder provider model) = Inr () \<longrightarrow> fst (get_embeddings_store_paths e) \<noteq> q) \<Longrightarrow>
   map_of (prepare_all invs fs) q = map_of fs q"
proof (induction invs fs rule: prepare_all.induct)
  case (1 fs)
  show ?case by simp
next
  case (2 e folder provider model rest fs)
  from "2.prems" have rest: "\<forall>(e, folder, provider, model) \<in> set rest.
      snd (prepare e folder provider model) = Inr () \<longrightarrow> fst (get_embeddings_store_paths e) \<noteq> q"
    by simp
  from "2.prems" have this_one:
    "\<not> (snd (prepare e folder provider model) = Inr () \<and> q = fst (get_embeddings_store_paths e))"
    by auto
  have "map_of (prepare_all ((e, folder, provider, model) # rest) fs) q =
      map_of (files_after (fst (prepare e folder provider model)) fs) q"
    using "2.IH" [OF rest] by simp
  also have "\<dots> = map_of fs q"
    using this_one by (rule files_after_prepare_other)
  finally show ?case .
qed

lemma prepare_all_holds_latest:
  assumes ok: "snd (prepare e folder provider model) = Inr ()"
    and later: "\<forall>(e', folder', provider', model') \<in> set after.
      snd (prepare e' folder' provider' model') = Inr () \<longrightarrow>
      fst (get_embeddings_store_paths e') \<noteq> fst (get_embeddings_store_paths e)"
  shows "\<exists>out raw.
     git_rev_parse e = Inr out \<and> git_log e = Inr raw \<and>
     map_of (prepare_all (before @ (e, folder, provider, model) # after) fs)
       (fst (get_embeddings_store_paths e)) =
       Some (Text_json
         (payload (strip out) (utcnow_isoformat e @ str ''Z'') provider
            (length (fst (extract_commits_with_message raw))) folder
            (snd (get_embeddings_store_paths e))))"
proof -
  from prepare_writes [OF ok] obtain out raw where
    out: "git_rev_parse e = Inr out" and raw: "git_log e = Inr raw" and
    w: "writes (fst (prepare e folder provider model)) =
       [(fst (get_embeddings_store_paths e),
         payload (strip out) (utcnow_isoformat e @ str ''Z'') provider
           (length (fst (extract_commits_with_message raw))) folder
           (snd (get_embeddings_store_paths e)))]"
    by auto
  have "map_of (prepare_all (before @ (e, folder, provider, model) # after) fs)
       (fst (get_embeddings_store_paths e)) =
     map_of (prepare_all after
        (files_after (fst (prepare e folder provider model)) (prepare_all before fs)))
       (fst (get_embeddings_store_paths e))"
    by (simp add: prepare_all_append)
  also have "\<dots> =
     map_of (files_after (fst (prepare e folder provider model)) (prepare_all before fs))
       (fst (get_embeddings_store_paths e))"
    by (rule prepare_all_untouched) (rule later)
  also have "\<dots> = Some (Text_json
         (payload (strip out) (utcnow_isoformat e @ str ''Z'') provider
            (length (fst (extract_commits_with_message raw))) folder
            (snd (get_embeddings_store_paths e))))"
    by (simp add: files_after_single [OF w] map_of_write_text)
  finally show ?thesis using out raw by blast
qed

lemma prepare_all_names_eq:
  "fst ` set (prepare_all invs fs) =
     fst ` set fs \<union>
     (\<lambda>(e, folder, provider, model). fst (get_embeddings_store_paths e)) `
       {inv \<in> set invs.
          case inv of (e, folder, provider, model) \<Rightarrow>
            snd (prepare e folder provider model) = Inr ()}"
proof (induction invs fs rule: prepare_all.induct)
  case (1 fs)
  show ?case by simp
next
  case (2 e folder provider model rest fs)
  have step: "fst ` set (files_after (fst (prepare e folder provider model)) fs) =
      fst ` set fs \<union>
      (if snd (prepare e folder provider model) = Inr ()
       then {fst (get_embeddings_store_paths e)} else {})"
  proof (cases "snd (prepare e folder provider model)")
    case (Inl err)
    then show ?thesis by (simp add: files_after_failed)
  next
    case (Inr u)
    from prepare_writes [OF Inr] obtain out raw where
      "writes (fst (prepare e folder provider model)) =
         [(fst (get_embeddings_store_paths e),
           payload (strip out) (utcnow_isoformat e @ str ''Z'') provider
             (length (fst (extract_commits_with_message raw))) folder
             (snd (get_embeddings_store_paths e)))]"
      by auto
    with Inr show ?thesis
      by (simp add: files_after_names)
  qed
  let ?ok = "\<lambda>inv. case inv of (e, folder, provider, model) \<Rightarrow>
            snd (prepare e folder provider model) = Inr ()"
  let ?path = "\<lambda>(e, folder, provider, model). fst (get_embeddings_store_paths e)"
  have "{inv \<in> set ((e, folder, provider, model) # rest). ?ok inv} =
      (if snd (prepare e folder provider model) = Inr () then {(e, folder, provider, model)} else {}) \<union>
      {inv \<in> set rest. ?ok inv}"
    by auto
  then have img: "?path ` {inv \<in> set ((e, folder, provider, model) # rest). ?ok inv} =
      (if snd (prepare e folder provider model) = Inr ()
       then {fst (get_embeddings_store_paths e)} else {}) \<union>
      ?path ` {inv \<in> set rest. ?ok inv}"
    by (simp only: image_Un) simp
  show ?case
    unfolding prepare_all.simps "2.IH" step img by (simp only: Un_assoc)
qed

lemma store_paths_rerun_env:
  "get_embeddings_store_paths rerun_env =
     (str ''.tmp/my_repo-embeddings-20250309140507.json'', str ''.tmp/.git_gpt_chroma_db_20250309140507'')"
  by (simp add: get_embeddings_store_paths_def rerun_env_def repo_env_def eval_strings)

lemma prepare_rerun_env_ok:
  "snd (prepare rerun_env (str ''/home/u/my repo'') (str ''hf'') (str ''bge'')) = Inr ()"
  by (simp add: rerun_env_def eval_prepare eval_run eval_strings repo_env_def)

lemma extracted_repo_log:
  "git_log repo_env = Inr raw \<Longrightarrow> length (fst (extract_commits_with_message raw)) = 2"
  by (auto simp: repo_env_def extract_commits_with_message_def eval_strings)

text \<open>
  C6, amended. After any sequence of \<open>prepare\<close> invocations on an empty store directory,
  no path occurs twice and the files are exactly the metadata files of the invocations
  that completed. The file of a completed invocation holds the payload of that invocation
  unless a later completed invocation names the same file: the later run replaces the
  earlier, and runs that name other files leave it as it is. Two invocations name the same
  file exactly when they agree on the folder name (spaces replaced) and on the timestamp:
  there is one metadata file per pair of folder name and timestamp.
\<close>

theorem one_metadata_file_per_name_and_timestamp:
  "distinct (map fst (prepare_all invs [])) \<and>
   fst ` set (prepare_all invs []) =
     (\<lambda>(e, folder, provider, model). fst (get_embeddings_store_paths e)) `
       {inv \<in> set invs.
          case inv of (e, folder, provider, model) \<Rightarrow>
            snd (prepare e folder provider model) = Inr ()} \<and>
   (\<forall>before e folder provider model after.
      invs = before @ (e, folder, provider, model) # after \<and>
      snd (prepare e folder provider model) = Inr () \<and>
      (\<forall>(e', folder', provider', model') \<in> set after.
         snd (prepare e' folder' provider' model') = Inr () \<longrightarrow>
         fst (get_embeddings_store_paths e') \<noteq> fst (get_embeddings_store_paths e)) \<longrightarrow>
      (\<exists>out raw.
         git_rev_parse e = Inr out \<and> git_log e = Inr raw \<and>
         map_of (prepare_all invs []) (fst (get_embeddings_store_paths e)) =
           Some (Text_json
             (payload (strip out) (utcnow_isoformat e @ str ''Z'') provider
                (length (fst (extract_commits_with_message raw))) folder
                (snd (get_embeddings_store_paths e)))))) \<and>
   (valid_datetime (now e1) \<and> valid_datetime (now e2) \<longrightarrow>
      (fst (get_embeddings_store_paths e1) = fst (get_embeddings_store_paths e2) \<longleftrightarrow>
       replace_char 32 95 (resolved_name e1) = replace_char 32 95 (resolved_name e2) \<and>
       strftime (now e1) = strftime (now e2)))"
proof -
  have a: "distinct (map fst (prepare_all invs []))"
    by (rule prepare_all_distinct) simp
  have b: "fst ` set (prepare_all invs []) =
     (\<lambda>(e, folder, provider, model). fst (get_embeddings_store_paths e)) `
       {inv \<in> set invs.
          case inv of (e, folder, provider, model) \<Rightarrow>
            snd (prepare e folder provider model) = Inr ()}"
    using prepare_all_names_eq [of invs "[]"] by simp
  have c: "\<exists>out raw.
         git_rev_parse e = Inr out \<and> git_log e = Inr raw \<and>
         map_of (prepare_all invs []) (fst (get_embeddings_store_paths e)) =
           Some (Text_json
             (payload (strip out) (utcnow_isoformat e @ str ''Z'') provider
                (length (fst (extract_commits_with_message raw))) folder
                (snd (get_embeddings_store_paths e))))"
    if "invs = before @ (e, folder, provider, model) # after \<and>
      snd (prepare e folder provider model) = Inr () \<and>
      (\<forall>(e', folder', provider', model') \<in> set after.
         snd (prepare e' folder' provider' model') = Inr () \<longrightarrow>
         fst (get_embeddings_store_paths e') \<noteq> fst (get_embeddings_store_paths e))"
    for before e folder provider model after
  proof -
    from that have i: "invs = before @ (e, folder, provider, model) # after"
      and ok: "snd (prepare e folder provider model) = Inr ()"
      and later: "\<forall>(e', folder', provider', model') \<in> set after.
         snd (prepare e' folder' provider' model') = Inr () \<longrightarrow>
         fst (get_embeddings_store_paths e') \<noteq> fst (get_embeddings_store_paths e)"
      by simp_all
    show ?thesis
      unfolding i by (rule prepare_all_holds_latest [OF ok later])
  qed
  have d: "fst (get_embeddings_store_paths e1) = fst (get_embeddings_store_paths e2) \<longleftrightarrow>
       replace_char 32 95 (resolved_name e1) = replace_char 32 95 (resolved_name e2) \<and>
       strftime (now e1) = strftime (now e2)"
    if "valid_datetime (now e1)" and "valid_datetime (now e2)"
  proof -
    from that have "length (strftime (now e1)) = length (strftime (now e2))"
      by (simp add: length_strftime)
    from embed_path_inject [OF this] show ?thesis
      by (simp add: get_embeddings_store_paths_def Let_def)
  qed
  from c have c': "\<forall>before e folder provider model after.
      invs = before @ (e, folder, provider, model) # after \<and>
      snd (prepare e folder provider model) = Inr () \<and>
      (\<forall>(e', folder', provider', model') \<in> set after.
         snd (prepare e' folder' provider' model') = Inr () \<longrightarrow>
         fst (get_embeddings_store_paths e') \<noteq> fst (get_embeddings_store_paths e)) \<longrightarrow>
      (\<exists>out raw.
         git_rev_parse e = Inr out \<and> git_log e = Inr raw \<and>
         map_of (prepare_all invs []) (fst (get_embeddings_store_paths e)) =
           Some (Text_json
             (payload (strip out) (utcnow_isoformat e @ str ''Z'') provider
                (length (fst (extract_commits_with_message raw))) folder
                (snd (get_embeddings_store_paths e)))))"
    by (intro allI impI)
  from d have d': "valid_datetime (now e1) \<and> valid_datetime (now e2) \<longrightarrow>
      (fst (get_embeddings_store_paths e1) = fst (get_embeddings_store_paths e2) \<longleftrightarrow>
       replace_char 32 95 (resolved_name e1) = replace_char 32 95 (resolved_name e2) \<and>
       strftime (now e1) = strftime (now e2))"
    by simp
  show ?thesis
    by (intro conjI a b c' d')
qed

theorem one_metadata_file_per_name_and_timestamp_witness:
  "distinct (map fst (prepare_all
        [(repo_env, str ''/home/u/my repo'', str ''hf'', str ''bge''),
         (other_env, str ''/srv/other'', str ''hf'', str ''bge''),
         (rerun_env, str ''/home/u/my repo'', str ''hf'', str ''bge'')] [])) \<and>
   map_of (prepare_all
        [(repo_env, str ''/home/u/my repo'', str ''hf'', str ''bge''),
         (other_env, str ''/srv/other'', str ''hf'', str ''bge''),
         (rerun_env, str ''/home/u/my repo'', str ''hf'', str ''bge'')] [])
     (str ''.tmp/my_repo-embeddings-20250309140507.json'') =
     Some (Text_json (payload (str ''dev'') (str ''2025-03-09T14:05:07.900000Z'') (str ''hf'') 2
             (str ''/home/u/my repo'') (str ''.tmp/.git_gpt_chroma_db_20250309140507''))) \<and>
   map_of (prepare_all
        [(repo_env, str ''/home/u/my repo'', str ''hf'', str ''bge''),
         (other_env, str ''/srv/other'', str ''hf'', str ''bge''),
         (rerun_env, str ''/home/u/my repo'', str ''hf'', str ''bge'')] [])
     (str ''.tmp/other-embeddings-20250309140507.json'') =
     Some (Text_json (payload (str ''main'') (str ''2025-03-09T14:05:09.250000Z'') (str ''hf'') 2
             (str ''/srv/other'') (str ''.tmp/.git_gpt_chroma_db_20250309140507''))) \<and>
   fst (get_embeddings_store_paths repo_env) \<noteq> fst (get_embeddings_store_paths other_env) \<and>
   strftime (now repo_env) = strftime (now other_env)"
proof -
  let ?invs = "[(repo_env, str ''/home/u/my repo'', str ''hf'', str ''bge''),
         (other_env, str ''/srv/other'', str ''hf'', str ''bge''),
         (rerun_env, str ''/home/u/my repo'', str ''hf'', str ''bge'')]"
  note T = one_metadata_file_per_name_and_timestamp [of ?invs repo_env other_env]
  from T have dist: "distinct (map fst (prepare_all ?invs []))" by (rule conjunct1)
  note held = T [THEN conjunct2, THEN conjunct2, THEN conjunct1, rule_format]
  have ne: "str ''.tmp/my_repo-embeddings-20250309140507.json'' \<noteq>
      str ''.tmp/other-embeddings-20250309140507.json''"
    by (simp add: str_def)
  have "\<exists>out raw.
         git_rev_parse rerun_env = Inr out \<and> git_log rerun_env = Inr raw \<and>
         map_of (prepare_all ?invs []) (fst (get_embeddings_store_paths rerun_env)) =
           Some (Text_json
             (payload (strip out) (utcnow_isoformat rerun_env @ str ''Z'') (str ''hf'')
                (length (fst (extract_commits_with_message raw))) (str ''/home/u/my repo'')
                (snd (get_embeddings_store_paths rerun_env))))"
    by (rule held [of "[(repo_env, str ''/home/u/my repo'', str ''hf'', str ''bge''),
         (other_env, str ''/srv/other'', str ''hf'', str ''bge'')]" rerun_env "str ''/home/u/my repo''"
          "str ''hf''" "str ''bge''" "[]"])
      (simp add: prepare_rerun_env_ok)
  then obtain out raw where
    o: "git_rev_parse rerun_env = Inr out" and r: "git_log rerun_env = Inr raw" and
    m: "map_of (prepare_all ?invs []) (fst (get_embeddings_store_paths rerun_env)) =
           Some (Text_json
             (payload (strip out) (utcnow_isoformat rerun_env @ str ''Z'') (str ''hf'')
                (length (fst (extract_commits_with_message raw))) (str ''/home/u/my repo'')
                (snd (get_embeddings_store_paths rerun_env))))"
    by (auto simp del: prepare_all.simps)
  from o have "strip out = str ''dev''"
    by (auto simp: rerun_env_def strip_def isspace_def str_def)
  moreover from r have "length (fst (extract_commits_with_message raw)) = 2"
    by (intro extracted_repo_log) (simp add: rerun_env_def)
  moreover have "utcnow_isoformat rerun_env @ str ''Z'' = str ''2025-03-09T14:05:07.900000Z''"
    by (simp add: rerun_env_def str_def)
  ultimately have mine: "map_of (prepare_all ?invs []) (str ''.tmp/my_repo-embeddings-20250309140507.json'') =
     Some (Text_json (payload (str ''dev'') (str ''2025-03-09T14:05:07.900000Z'') (str ''hf'') 2
             (str ''/home/u/my repo'') (str ''.tmp/.git_gpt_chroma_db_20250309140507'')))"
    using m by (simp del: prepare_all.simps add: store_paths_rerun_env)
  have "\<exists>out raw.
         git_rev_parse other_env = Inr out \<and> git_log other_env = Inr raw \<and>
         map_of (prepare_all ?invs []) (fst (get_embeddings_store_paths other_env)) =
           Some (Text_json
             (payload (strip out) (utcnow_isoformat other_env @ str ''Z'') (str ''hf'')
                (length (fst (extract_commits_with_message raw))) (str ''/srv/other'')
                (snd (get_embeddings_store_paths other_env))))"
    by (rule held [of "[(repo_env, str ''/home/u/my repo'', str ''hf'', str ''bge'')]" other_env
          "str ''/srv/other''" "str ''hf''" "str ''bge''"
          "[(rerun_env, str ''/home/u/my repo'', str ''hf'', str ''bge'')]"])
      (simp add: prepare_other_env_ok store_paths_rerun_env store_paths_other_env ne)
  then obtain out' raw' where
    o': "git_rev_parse other_env = Inr out'" and r': "git_log other_env = Inr raw'" and
    m': "map_of (prepare_all ?invs []) (fst (get_embeddings_store_paths other_env)) =
           Some (Text_json
             (payload (strip out') (utcnow_isoformat other_env @ str ''Z'') (str ''hf'')
                (length (fst (extract_commits_with_message raw'))) (str ''/srv/other'')
                (snd (get_embeddings_store_paths other_env))))"
    by (auto simp del: prepare_all.simps)
  from o' have "strip out' = str ''main''"
    by (auto simp: other_env_def repo_env_def strip_def isspace_def str_def)
  moreover from r' have "length (fst (extract_commits_with_message raw')) = 2"
    by (intro extracted_repo_log) (simp add: other_env_def)
  moreover have "utcnow_isoformat other_env @ str ''Z'' = str ''2025-03-09T14:05:09.250000Z''"
    by (simp add: other_env_def repo_env_def str_def)
  ultimately have theirs: "map_of (prepare_all ?invs []) (str ''.tmp/other-embeddings-20250309140507.json'') =
     Some (Text_json (payload (str ''main'') (str ''2025-03-09T14:05:09.250000Z'') (str ''hf'') 2
             (str ''/srv/other'') (str ''.tmp/.git_gpt_chroma_db_20250309140507'')))"
    using m' by (simp del: prepare_all.simps add: store_paths_other_env)
  have v: "valid_datetime (now repo_env)" "valid_datetime (now other_env)"
    by (simp_all add: valid_datetime_def repo_env_def other_env_def)
  have n: "replace_char 32 95 (resolved_name repo_env) \<noteq> replace_char 32 95 (resolved_name other_env)"
    by (simp add: repo_env_def other_env_def replace_char_def str_def)
  have t: "strftime (now repo_env) = strftime (now other_env)"
    by (simp add: repo_env_def other_env_def)
  from T v n have p: "fst (get_embeddings_store_paths repo_env) \<noteq> fst (get_embeddings_store_paths other_env)"
    by simp
  show ?thesis
    by (intro conjI dist mine theirs p t)
qed

section \<open>The provider of a search\<close>

lemma search_embeds_with_own_provider:
  "\<forall>x \<in> set (searches (fst (search e query provider model summarize llm_provider llm_model k))).
     \<exists>dir emb. x = (dir, emb, query, k) \<and> snd (get_embeddings e provider model) = Inr emb"
  by (auto simp: search_def exit_1_def Let_def fst_run_bind snd_run_bind searches_append
      fst_read_json lift_def emit_def echo_def format_results_quiet get_embeddings_quiet
      get_llm_provider_quiet ret_def
      split: sum.splits if_splits)

lemma map_of_record_provider:
  "map_of (map (\<lambda>(p, c). (p, record_provider P c)) fs) p = map_option (record_provider P) (map_of fs p)"
  by (induction fs) auto

lemma map_of_other_key:
  "key \<noteq> str ''provider'' \<Longrightarrow>
   map_of (map (\<lambda>(k, v). if k = str ''provider'' then (k, JStr P) else (k, v)) kvs) key = map_of kvs key"
  by (induction kvs) auto

lemma chroma_dir_not_provider: "str ''chroma_dir'' \<noteq> str ''provider''"
  by (simp add: str_def)

lemma subscript_record_provider:
  "record_provider P (Text_json j) = Text_json j' \<Longrightarrow>
   subscript j' (str ''chroma_dir'') = subscript j (str ''chroma_dir'')"
  by (cases j) (auto simp: subscript_def map_of_other_key chroma_dir_not_provider)

lemma record_provider_cases:
  "record_provider P Text_other = Text_other" "record_provider P Not_readable = Not_readable"
  "\<exists>j'. record_provider P (Text_json j) = Text_json j'"
  by (simp_all, cases j, simp_all)

lemma read_json_record_provider:
  "run_bind (read_json (map (\<lambda>(p, c). (p, record_provider P c)) fs) p)
     (\<lambda>data. run_bind (lift (subscript data (str ''chroma_dir''))) K) =
   run_bind (read_json fs p) (\<lambda>data. run_bind (lift (subscript data (str ''chroma_dir''))) K)"
proof (cases "map_of fs p")
  case None
  then show ?thesis
    by (simp add: read_json_def map_of_record_provider)
next
  case (Some c)
  show ?thesis
  proof (cases c)
    case (Text_json j)
    obtain j' where j': "record_provider P (Text_json j) = Text_json j'"
      using record_provider_cases(3) by blast
    from subscript_record_provider [OF j'] Some Text_json j' show ?thesis
      by (simp add: read_json_def map_of_record_provider emit_def ret_def run_bind_Inr lift_def)
  next
    case Text_other
    with Some show ?thesis by (simp add: read_json_def map_of_record_provider)
  next
    case Not_readable
    with Some show ?thesis by (simp add: read_json_def map_of_record_provider)
  qed
qed

lemma glob_record_provider:
  "glob dir pat (map (\<lambda>(p, c). (p, record_provider P c)) fs) = glob dir pat fs"
proof -
  have "map fst (map (\<lambda>(p, c). (p, record_provider P c)) fs) = map fst fs"
    by (induction fs) auto
  then show ?thesis by (simp only: glob_def)
qed

lemma get_embeddings_files: "get_embeddings (e\<lparr>files := fs\<rparr>) = get_embeddings e"
  by (intro ext) (simp add: get_embeddings_def get_api_key_def get_api_key_openai_def)

lemma get_llm_provider_files: "get_llm_provider (e\<lparr>files := fs\<rparr>) = get_llm_provider e"
  by (intro ext)
    (simp add: get_llm_provider_def get_llm_provider_openai_def get_api_key_def get_api_key_openai_def)

lemma search_ignores_recorded_provider:
  "search (with_recorded_provider P e) query provider model summarize llm_provider llm_model k =
   search e query provider model summarize llm_provider llm_model k"
  by (simp add: search_def with_recorded_provider_def glob_record_provider read_json_record_provider
      get_embeddings_files get_llm_provider_files Let_def cong: if_cong)


lemma set_str_of_nat: "set (str_of_nat n) \<subseteq> {48..57}"
proof (induction n rule: str_of_nat.induct)
  case (1 n)
  show ?case
  proof (cases "n < 10")
    case True
    then show ?thesis by (subst str_of_nat.simps) simp
  next
    case False
    with 1 have "set (str_of_nat (n div 10)) \<subseteq> {48..57}" by simp
    moreover have "48 + n mod 10 \<in> {48..57}" by simp
    ultimately show ?thesis using False by (subst str_of_nat.simps) simp
  qed
qed

lemma no_slash_zero_pad: "47 \<notin> set (zero_pad w n)"
  using set_str_of_nat [of n] by (auto simp: zero_pad_def)

lemma no_slash_strftime: "47 \<notin> set (strftime t)"
  by (simp add: strftime_def no_slash_zero_pad)

lemma no_slash_replace_char: "47 \<notin> set s \<Longrightarrow> 47 \<notin> set (replace_char 32 95 s)"
  by (auto simp: replace_char_def)

lemma glob_single_metadata_file:
  assumes "47 \<notin> set node" and "47 \<notin> set ts"
  shows "glob root_dir embeddings_pattern
           [(root_dir @ str ''/'' @ node @ str ''-embeddings-'' @ ts @ str ''.json'', c)] =
         [root_dir @ str ''/'' @ node @ str ''-embeddings-'' @ ts @ str ''.json'']"
proof -
  let ?name = "node @ str ''-embeddings-'' @ ts @ str ''.json''"
  have sl: "str ''/'' = [47]" by (simp add: str_def)
  have d: "drop (length root_dir + 1) (root_dir @ str ''/'' @ ?name) = ?name"
    by (simp add: sl)
  have p: "prefix (root_dir @ str ''/'') (root_dir @ str ''/'' @ ?name)"
    by (simp add: prefix_def)
  have n: "47 \<notin> set ?name"
    using assms by (simp add: str_def)
  have m: "glob_match embeddings_pattern ?name"
    unfolding glob_match_embeddings_pattern by blast
  from d p n m show ?thesis
    unfolding glob_def by (simp del: append_assoc add: append_assoc [symmetric])
qed

lemma search_trace_begins:
  assumes "length query \<le> 200" and "glob root_dir embeddings_pattern (files e) \<noteq> []"
    and "map_of (files e) (last (sort (glob root_dir embeddings_pattern (files e)))) =
           Some (Text_json (JObj kvs))"
    and "map_of kvs (str ''chroma_dir'') = Some dir"
    and "snd (get_embeddings e provider model) = Inr emb"
  shows "\<exists>rest. fst (search e query provider model summarize llm_provider llm_model k) =
    Read_text (last (sort (glob root_dir embeddings_pattern (files e)))) #
    Similarity_search dir emb query k # rest"
proof -
  obtain es where "get_embeddings e provider model = (es, Inr emb)"
    using assms(5) by (cases "get_embeddings e provider model") simp
  then have ge: "get_embeddings e provider model = ([], Inr emb)"
    using get_embeddings_ok_silent by blast
  from assms(1-4) ge show ?thesis
    by (simp add: search_def Let_def fst_run_bind snd_run_bind read_json_def subscript_def
        lift_def emit_def ret_def)
qed

lemma search_after_prepare:
  assumes ok: "snd (prepare e1 folder P m1) = Inr u"
    and fs: "files e2 = files_after (fst (prepare e1 folder P m1)) []"
    and node: "47 \<notin> set (resolved_name e1)"
    and q: "length query \<le> 200"
    and emb: "snd (get_embeddings e2 Q m2) = Inr emb"
  shows "reads (fst (search e2 query Q m2 summarize llm_provider llm_model k)) =
           [fst (get_embeddings_store_paths e1)] \<and>
         searches (fst (search e2 query Q m2 summarize llm_provider llm_model k)) =
           [(JStr (snd (get_embeddings_store_paths e1)), emb, query, k)] \<and>
         (\<exists>rest. fst (search e2 query Q m2 summarize llm_provider llm_model k) =
            Read_text (fst (get_embeddings_store_paths e1)) #
            Similarity_search (JStr (snd (get_embeddings_store_paths e1))) emb query k # rest)"
proof -
  let ?path = "root_dir @ str ''/'' @ replace_char 32 95 (resolved_name e1) @ str ''-embeddings-'' @
     strftime (now e1) @ str ''.json''"
  have path: "fst (get_embeddings_store_paths e1) = ?path"
    by (simp add: get_embeddings_store_paths_def Let_def)
  from prepare_writes [OF ok] obtain out raw where
    w: "writes (fst (prepare e1 folder P m1)) =
       [(?path,
         payload (strip out) (utcnow_isoformat e1 @ str ''Z'') P
           (length (fst (extract_commits_with_message raw))) folder
           (snd (get_embeddings_store_paths e1)))]"
    unfolding path by blast
  let ?json = "payload (strip out) (utcnow_isoformat e1 @ str ''Z'') P
           (length (fst (extract_commits_with_message raw))) folder
           (snd (get_embeddings_store_paths e1))"
  from fs w have files: "files e2 = [(?path, Text_json ?json)]"
    by (simp add: files_after_single)
  have g: "glob root_dir embeddings_pattern (files e2) = [?path]"
    unfolding files
    by (rule glob_single_metadata_file) (simp_all add: no_slash_replace_char node no_slash_strftime)
  then have ne: "glob root_dir embeddings_pattern (files e2) \<noteq> []" by simp
  have latest: "last (sort (glob root_dir embeddings_pattern (files e2))) = ?path"
    by (simp add: g)
  have r: "reads (fst (search e2 query Q m2 summarize llm_provider llm_model k)) = [?path]"
    using search_reads [OF q ne] latest by simp
  have look: "map_of (files e2) (last (sort (glob root_dir embeddings_pattern (files e2)))) =
      Some (Text_json (JObj [(str ''branch'', JStr (strip out)),
           (str ''created_at'', JStr (utcnow_isoformat e1 @ str ''Z'')),
           (str ''provider'', JStr P),
           (str ''doc_count'', JInt (int (length (fst (extract_commits_with_message raw))))),
           (str ''path'', JStr folder),
           (str ''chroma_dir'', JStr (snd (get_embeddings_store_paths e1)))]))"
    unfolding latest by (simp add: files payload_def)
  have key: "map_of [(str ''branch'', JStr (strip out)),
           (str ''created_at'', JStr (utcnow_isoformat e1 @ str ''Z'')),
           (str ''provider'', JStr P),
           (str ''doc_count'', JInt (int (length (fst (extract_commits_with_message raw))))),
           (str ''path'', JStr folder),
           (str ''chroma_dir'', JStr (snd (get_embeddings_store_paths e1)))] (str ''chroma_dir'') =
      Some (JStr (snd (get_embeddings_store_paths e1)))"
    by (simp add: str_def)
  from search_trace_begins [OF q ne look key emb] latest path
  have "\<exists>rest. fst (search e2 query Q m2 summarize llm_provider llm_model k) =
      Read_text (fst (get_embeddings_store_paths e1)) #
      Similarity_search (JStr (snd (get_embeddings_store_paths e1))) emb query k # rest"
    by simp
  with search_searches [OF q ne look key emb] r path show ?thesis by simp
qed

section \<open>Summarizing\<close>

lemma format_template_literal:
  "123 \<notin> set lit \<Longrightarrow> 125 \<notin> set lit \<Longrightarrow>
   format_template (lit @ rest) kw = map_sum id ((@) lit) (format_template rest kw)"
proof (induction lit)
  case Nil
  show ?case by (cases "format_template rest kw") simp_all
next
  case (Cons c lit)
  from Cons.prems have c: "c \<noteq> 123" "c \<noteq> 125" by simp_all
  from Cons.prems have IH: "format_template (lit @ rest) kw =
      map_sum id ((@) lit) (format_template rest kw)"
    by (intro Cons.IH) simp_all
  show ?case
  proof (cases "lit @ rest")
    case Nil
    with c show ?thesis by simp
  next
    case (Cons d cs)
    with c have "format_template ((c # lit) @ rest) kw =
        map_sum id ((#) c) (format_template (lit @ rest) kw)"
      by simp
    also have "\<dots> = map_sum id ((@) (c # lit)) (format_template rest kw)"
      unfolding IH by (cases "format_template rest kw") simp_all
    finally show ?thesis .
  qed
qed

lemma format_template_field:
  assumes "123 \<notin> set name" and "125 \<notin> set name"
  shows "format_template (123 # name @ 125 # rest) kw =
     (case map_of kw name of
        None \<Rightarrow> Inl KeyError
      | Some v \<Rightarrow> map_sum id ((@) v) (format_template rest kw))"
proof -
  obtain d cs where dc: "name @ 125 # rest = d # cs"
    by (cases "name @ 125 # rest") simp_all
  with assms have d: "d \<noteq> 123"
    by (cases name) auto
  have "dropWhile (\<lambda>x. x \<noteq> 125) (name @ 125 # rest) = 125 # rest"
    using assms(2) by (induction name) auto
  then have dw: "dropWhile (\<lambda>x. x \<noteq> 125) (d # cs) = 125 # rest"
    by (simp only: dc)
  have "takeWhile (\<lambda>x. x \<noteq> 125) (name @ 125 # rest) = name"
    using assms(2) by (induction name) auto
  then have tw: "takeWhile (\<lambda>x. x \<noteq> 125) (d # cs) = name"
    by (simp only: dc)
  have "format_template (123 # d # cs) kw =
     (case dropWhile (\<lambda>x. x \<noteq> 125) (d # cs) of
        [] \<Rightarrow> Inl ValueError
      | _ # rest \<Rightarrow>
          (case map_of kw (takeWhile (\<lambda>x. x \<noteq> 125) (d # cs)) of
             None \<Rightarrow> Inl KeyError
           | Some v \<Rightarrow> map_sum id ((@) v) (format_template rest kw)))"
    using d by (simp del: dropWhile.simps takeWhile.simps)
  also have "\<dots> =
     (case map_of kw name of
        None \<Rightarrow> Inl KeyError
      | Some v \<Rightarrow> map_sum id ((@) v) (format_template rest kw))"
    by (simp only: dw tw list.case)
  finally show ?thesis by (simp only: dc)
qed

lemma no_brace_system_prompt: "123 \<notin> set system_prompt \<and> 125 \<notin> set system_prompt"
  by (simp add: system_prompt_def str_def)

text \<open>
  Filling the template never fails, whatever the block of commits and the query contain:
  braces in them are not read as fields.
\<close>

lemma format_prompt_template:
  "format_template prompt_template [(str ''commits'', commits), (str ''question'', query)] =
     Inr (system_prompt @ [10, 10] @ str ''Commit Messages:'' @ [10] @ commits @ [10, 10] @
          str ''Question:'' @ [10] @ query)"
proof -
  let ?kw = "[(str ''commits'', commits), (str ''question'', query)]"
  let ?l1 = "system_prompt @ [10, 10] @ str ''Commit Messages:'' @ [10]"
  let ?l2 = "[10, 10] @ str ''Question:'' @ [10]"
  have t: "prompt_template =
      ?l1 @ (123 # str ''commits'' @ 125 # (?l2 @ (123 # str ''question'' @ 125 # [])))"
    by (simp add: prompt_template_def str_def)
  have l1: "123 \<notin> set ?l1" "125 \<notin> set ?l1"
    using no_brace_system_prompt by (simp_all add: str_def)
  have l2: "123 \<notin> set ?l2" "125 \<notin> set ?l2"
    by (simp_all add: str_def)
  have n1: "123 \<notin> set (str ''commits'')" "125 \<notin> set (str ''commits'')"
    by (simp_all add: str_def)
  have n2: "123 \<notin> set (str ''question'')" "125 \<notin> set (str ''question'')"
    by (simp_all add: str_def)
  have k1: "map_of ?kw (str ''commits'') = Some commits" by simp
  have k2: "map_of ?kw (str ''question'') = Some query" by (simp add: str_def)
  have last: "format_template (123 # str ''question'' @ 125 # []) ?kw = Inr query"
    unfolding format_template_field [OF n2] k2 by simp
  have "format_template (?l2 @ (123 # str ''question'' @ 125 # [])) ?kw = Inr (?l2 @ query)"
    unfolding format_template_literal [OF l2] last by simp
  then have "format_template (123 # str ''commits'' @ 125 # (?l2 @ (123 # str ''question'' @ 125 # []))) ?kw =
      Inr (commits @ ?l2 @ query)"
    unfolding format_template_field [OF n1] k1 by simp
  then have "format_template (?l1 @ (123 # str ''commits'' @ 125 # (?l2 @ (123 # str ''question'' @ 125 # [])))) ?kw =
      Inr (?l1 @ commits @ ?l2 @ query)"
    unfolding format_template_literal [OF l1] by simp
  then show ?thesis unfolding t by simp
qed


text \<open>
  The loop over results that all have a message: one printed line and one line of \<open>commits\<close>
  per commit, each with sha, author, date and the first line of the first 100 characters of
  the message.
\<close>

lemma format_results_lines:
  assumes "\<forall>d \<in> set docs. page_content d \<noteq> []"
  shows "format_results docs commits =
     (map (\<lambda>d. Echo Stdout
              (str ''- '' @ fmt (map_of (metadata d) (str ''sha'')) @ str '': '' @
               fmt (map_of (metadata d) (str ''author'')) @ str '' on '' @
               fmt (map_of (metadata d) (str ''date'')) @ str '': '' @
               hd (splitlines (take 100 (page_content d))) @ str ''...'')) docs,
      Inr (commits @
           concat (map (\<lambda>d.
              str ''-commit: '' @ fmt (map_of (metadata d) (str ''sha'')) @ str '': author: '' @
              fmt (map_of (metadata d) (str ''author'')) @ str '', date: '' @
              fmt (map_of (metadata d) (str ''date'')) @ str '', message: '' @
              hd (splitlines (take 100 (page_content d))) @ str ''...'' @ [10]) docs)))"
  using assms
proof (induction docs arbitrary: commits)
  case Nil
  show ?case by (simp add: ret_def)
next
  case (Cons d docs)
  then have "page_content d \<noteq> []" by simp
  then obtain l ls where sl: "splitlines (take 100 (page_content d)) = l # ls"
    by (cases "splitlines (take 100 (page_content d))") (simp_all add: splitlines_Nil_iff)
  from Cons.prems have "\<forall>d \<in> set docs. page_content d \<noteq> []" by simp
  note IH = Cons.IH [OF this]
  show ?case
    by (simp add: sl Let_def echo_def emit_def run_bind_Inr IH)
qed

text \<open>
  A run with \<open>--summarize\<close> whose loop completes: the prompt is the system prompt, the block
  of commits and the query; it goes to the chat model, and the answer is printed stripped.
\<close>

lemma search_summarize:
  assumes "length query \<le> 200" and "glob root_dir embeddings_pattern (files e) \<noteq> []"
    and "map_of (files e) (last (sort (glob root_dir embeddings_pattern (files e)))) =
           Some (Text_json (JObj kvs))"
    and "map_of kvs (str ''chroma_dir'') = Some dir"
    and "snd (get_embeddings e provider model) = Inr emb"
    and "chroma_similarity_search e dir emb query k = Inr docs"
    and "format_results docs [] = (lines, Inr commits)"
    and "snd (get_llm_provider e llm_provider llm_model) = Inr llm"
  shows "search e query provider model True llm_provider llm_model k =
     ([Read_text (last (sort (glob root_dir embeddings_pattern (files e)))),
       Similarity_search dir emb query k,
       Echo Stdout ([0x1F50D] @ str '' Top '' @ str_of_nat (length docs) @ str '' matching commits:'')] @
      lines @ fst (get_llm_provider e llm_provider llm_model) @
      [Invoke llm (system_prompt @ [10, 10] @ str ''Commit Messages:'' @ [10] @ commits @ [10, 10] @
                   str ''Question:'' @ [10] @ query)] @
      (case llm_invoke e llm (system_prompt @ [10, 10] @ str ''Commit Messages:'' @ [10] @ commits @
                              [10, 10] @ str ''Question:'' @ [10] @ query) of
         Inl err \<Rightarrow> []
       | Inr response \<Rightarrow>
           [Echo Stdout ([10, 0x1F916] @ str '' LLM Answer:''),
            Echo Stdout (strip (case response of With_content c \<Rightarrow> c | Without_content r \<Rightarrow> r))]),
      map_sum id (\<lambda>_. ())
        (llm_invoke e llm (system_prompt @ [10, 10] @ str ''Commit Messages:'' @ [10] @ commits @
                           [10, 10] @ str ''Question:'' @ [10] @ query)))"
proof -
  obtain es where "get_embeddings e provider model = (es, Inr emb)"
    using assms(5) by (cases "get_embeddings e provider model") simp
  then have ge: "get_embeddings e provider model = ([], Inr emb)"
    using get_embeddings_ok_silent by blast
  obtain ls where gl: "get_llm_provider e llm_provider llm_model = (ls, Inr llm)"
    using assms(8) by (cases "get_llm_provider e llm_provider llm_model") simp
  from assms(1-4,6,7) ge gl show ?thesis
    by (cases "llm_invoke e llm (system_prompt @ [10, 10] @ str ''Commit Messages:'' @ [10] @
          commits @ [10, 10] @ str ''Question:'' @ [10] @ query)")
      (simp_all add: search_def Let_def run_bind_Inr run_bind_Inl read_json_def subscript_def
        lift_def emit_def echo_def ret_def format_prompt_template)
qed

lemma latest_empty_message_env:
  "glob root_dir embeddings_pattern (files empty_message_env) \<noteq> [] \<and>
   last (sort (glob root_dir embeddings_pattern (files empty_message_env))) =
     str ''.tmp/my_repo-embeddings-20250309140507.json''"
proof -
  have "files empty_message_env = files store_env"
    by (simp add: empty_message_env_def)
  then show ?thesis
    using latest_store_env glob_store_env by simp
qed

text \<open>
  C4. With \<open>--summarize\<close>, on a result set whose second commit has an empty message, the
  run prints the line of the first commit and ends with \<open>IndexError\<close> in the loop: no prompt
  is built and nothing is sent to the chat model.
\<close>

theorem search_summarize_fails_on_empty_message:
  "search empty_message_env (str ''bug'') (str ''hf'') (str ''bge'') True (str ''openai'')
     (str ''gpt'') 5 =
   ([Read_text (str ''.tmp/my_repo-embeddings-20250309140507.json''),
     Similarity_search (JStr (str ''.tmp/.git_gpt_chroma_db_20250309140507''))
       (HuggingFaceEmbeddings (str ''bge'')) (str ''bug'') 5,
     Echo Stdout (0x1F50D # str '' Top 2 matching commits:''),
     Echo Stdout (str ''- a1: Ann on Mon: fix...'')],
    Inl IndexError)"
  apply (simp add: search_def latest_empty_message_env)
  apply (simp add: empty_message_env_def store_env_def repo_env_def eval_search eval_prepare
      eval_run eval_strings)
  done

section \<open>The API key\<close>

text \<open>
  C8. When the hosted provider \<open>openai\<close> is selected, for embeddings or for the chat model,
  and \<open>OPENAI_API_KEY\<close> is unset or empty, the message is printed on the error stream and
  the run exits with code 1; when the variable holds a non-empty key, the provider object
  is constructed. Nothing catches the exit: a \<open>prepare\<close> that has reached the construction
  ends with code 1 right after the message and has written no file, and so does a \<open>search\<close>
  that has read its metadata file.
\<close>

theorem openai_api_key_required:
  "((openai_api_key e = None \<or> openai_api_key e = Some []) \<longrightarrow>
      get_embeddings e (str ''openai'') model = ([Echo Stderr api_key_not_set], Inl (Exit 1)) \<and>
      get_llm_provider e (str ''openai'') llm_model = ([Echo Stderr api_key_not_set], Inl (Exit 1))) \<and>
   (\<forall>key. openai_api_key e = Some key \<and> key \<noteq> [] \<longrightarrow>
      get_embeddings e (str ''openai'') model = ([], Inr (OpenAIEmbeddings model)) \<and>
      get_llm_provider e (str ''openai'') llm_model = ([], Inr (ChatOpenAI llm_model))) \<and>
   (\<forall>out raw.
      (openai_api_key e = None \<or> openai_api_key e = Some []) \<and> exists (dotgit e) \<and>
      git_rev_parse e = Inr out \<and> git_log e = Inr raw \<longrightarrow>
      snd (prepare e folder (str ''openai'') model) = Inl (Exit 1) \<and>
      last (fst (prepare e folder (str ''openai'') model)) = Echo Stderr api_key_not_set \<and>
      writes (fst (prepare e folder (str ''openai'') model)) = []) \<and>
   (\<forall>kvs dir.
      (openai_api_key e = None \<or> openai_api_key e = Some []) \<and> length query \<le> 200 \<and>
      glob root_dir embeddings_pattern (files e) \<noteq> [] \<and>
      map_of (files e) (last (sort (glob root_dir embeddings_pattern (files e)))) =
        Some (Text_json (JObj kvs)) \<and>
      map_of kvs (str ''chroma_dir'') = Some dir \<longrightarrow>
      search e query (str ''openai'') model summarize llm_provider llm_model k =
        ([Read_text (last (sort (glob root_dir embeddings_pattern (files e)))),
          Echo Stderr api_key_not_set], Inl (Exit 1)))"
proof -
  have fn: "get_embeddings e (str ''openai'') model = ([Echo Stderr api_key_not_set], Inl (Exit 1)) \<and>
      get_llm_provider e (str ''openai'') llm_model = ([Echo Stderr api_key_not_set], Inl (Exit 1))"
    if "openai_api_key e = None \<or> openai_api_key e = Some []"
    using that
    by (auto simp: get_embeddings_def get_llm_provider_def get_llm_provider_openai_def
        get_api_key_def get_api_key_openai_def exit_1_def run_bind_Inl str_hf_openai [symmetric])
  have ok: "get_embeddings e (str ''openai'') model = ([], Inr (OpenAIEmbeddings model)) \<and>
      get_llm_provider e (str ''openai'') llm_model = ([], Inr (ChatOpenAI llm_model))"
    if "openai_api_key e = Some key \<and> key \<noteq> []" for key
    using that
    by (auto simp: get_embeddings_def get_llm_provider_def get_llm_provider_openai_def
        get_api_key_def get_api_key_openai_def run_bind_Inr ret_def str_hf_openai [symmetric])
  have pr: "snd (prepare e folder (str ''openai'') model) = Inl (Exit 1) \<and>
      last (fst (prepare e folder (str ''openai'') model)) = Echo Stderr api_key_not_set \<and>
      writes (fst (prepare e folder (str ''openai'') model)) = []"
    if "(openai_api_key e = None \<or> openai_api_key e = Some []) \<and> exists (dotgit e) \<and>
      git_rev_parse e = Inr out \<and> git_log e = Inr raw" for out raw
  proof -
    from that fn have ge: "get_embeddings e (str ''openai'') model =
        ([Echo Stderr api_key_not_set], Inl (Exit 1))"
      by blast
    from that ge show ?thesis
      by (auto simp: prepare_def lift_def run_bind_Inr run_bind_Inl echo_def emit_def Let_def
          writes_append dest: writes_extracted split: prod.splits)
  qed
  have se: "search e query (str ''openai'') model summarize llm_provider llm_model k =
        ([Read_text (last (sort (glob root_dir embeddings_pattern (files e)))),
          Echo Stderr api_key_not_set], Inl (Exit 1))"
    if "(openai_api_key e = None \<or> openai_api_key e = Some []) \<and> length query \<le> 200 \<and>
      glob root_dir embeddings_pattern (files e) \<noteq> [] \<and>
      map_of (files e) (last (sort (glob root_dir embeddings_pattern (files e)))) =
        Some (Text_json (JObj kvs)) \<and>
      map_of kvs (str ''chroma_dir'') = Some dir" for kvs dir
  proof -
    from that fn have ge: "get_embeddings e (str ''openai'') model =
        ([Echo Stderr api_key_not_set], Inl (Exit 1))"
      by blast
    from that ge show ?thesis
      by (simp add: search_def read_json_def subscript_def lift_def run_bind_Inr run_bind_Inl
          emit_def ret_def Let_def)
  qed
  from fn ok pr se show ?thesis by blast
qed

theorem openai_api_key_required_witness:
  "get_embeddings repo_env (str ''openai'') (str ''m'') = ([Echo Stderr api_key_not_set], Inl (Exit 1)) \<and>
   get_llm_provider repo_env (str ''openai'') (str ''g'') = ([Echo Stderr api_key_not_set], Inl (Exit 1)) \<and>
   get_embeddings (repo_env\<lparr>openai_api_key := Some (str ''sk-1'')\<rparr>) (str ''openai'') (str ''m'') =
     ([], Inr (OpenAIEmbeddings (str ''m''))) \<and>
   get_llm_provider (repo_env\<lparr>openai_api_key := Some (str ''sk-1'')\<rparr>) (str ''openai'') (str ''g'') =
     ([], Inr (ChatOpenAI (str ''g''))) \<and>
   snd (prepare repo_env (str ''/home/u/my repo'') (str ''openai'') (str ''m'')) = Inl (Exit 1) \<and>
   search store_env (str ''bug'') (str ''openai'') (str ''m'') False (str ''openai'') (str ''g'') 5 =
     ([Read_text (str ''.tmp/my_repo-embeddings-20250309140507.json''),
       Echo Stderr api_key_not_set], Inl (Exit 1))"
proof -
  note a = openai_api_key_required [where e = repo_env and model = "str ''m''"
      and llm_model = "str ''g''" and folder = "str ''/home/u/my repo''"]
  note b = openai_api_key_required [where e = "repo_env\<lparr>openai_api_key := Some (str ''sk-1'')\<rparr>"
      and model = "str ''m''" and llm_model = "str ''g''"]
  note c = openai_api_key_required [where e = store_env and model = "str ''m''"
      and query = "str ''bug''" and summarize = False and llm_provider = "str ''openai''"
      and llm_model = "str ''g''" and k = 5]
  have key: "openai_api_key repo_env = None" "openai_api_key store_env = None"
    by (simp_all add: store_env_def repo_env_def)
  have p: "exists (dotgit repo_env)" "git_rev_parse repo_env = Inr (str ''main'' @ [10])"
    "\<exists>raw. git_log repo_env = Inr raw"
    by (simp_all add: repo_env_def exists_def)
  have q: "length (str ''bug'') \<le> 200" by (simp add: str_def)
  have g: "glob root_dir embeddings_pattern (files store_env) \<noteq> []"
    by (simp add: glob_store_env)
  have f: "map_of (files store_env) (last (sort (glob root_dir embeddings_pattern (files store_env)))) =
      Some (Text_json (JObj [(str ''branch'', JStr (str ''main'')),
                (str ''created_at'', JStr (str ''2025-03-09T14:05:09.250000Z'')),
                (str ''provider'', JStr (str ''hf'')),
                (str ''doc_count'', JInt 2),
                (str ''path'', JStr (str ''/home/u/my repo'')),
                (str ''chroma_dir'', JStr (str ''.tmp/.git_gpt_chroma_db_20250309140507''))]))"
    unfolding latest_store_env by (simp add: store_env_def payload_def)
  have d: "map_of [(str ''branch'', JStr (str ''main'')),
                (str ''created_at'', JStr (str ''2025-03-09T14:05:09.250000Z'')),
                (str ''provider'', JStr (str ''hf'')),
                (str ''doc_count'', JInt 2),
                (str ''path'', JStr (str ''/home/u/my repo'')),
                (str ''chroma_dir'', JStr (str ''.tmp/.git_gpt_chroma_db_20250309140507''))]
             (str ''chroma_dir'') = Some (JStr (str ''.tmp/.git_gpt_chroma_db_20250309140507''))"
    by (simp add: str_def)
  from a key(1) p have "snd (prepare repo_env (str ''/home/u/my repo'') (str ''openai'') (str ''m'')) =
      Inl (Exit 1)"
    by auto
  moreover from c key(2) q g f d
  have "search store_env (str ''bug'') (str ''openai'') (str ''m'') False (str ''openai'') (str ''g'') 5 =
     ([Read_text (last (sort (glob root_dir embeddings_pattern (files store_env)))),
       Echo Stderr api_key_not_set], Inl (Exit 1))"
    by auto
  moreover from a key(1) have
    "get_embeddings repo_env (str ''openai'') (str ''m'') = ([Echo Stderr api_key_not_set], Inl (Exit 1)) \<and>
     get_llm_provider repo_env (str ''openai'') (str ''g'') = ([Echo Stderr api_key_not_set], Inl (Exit 1))"
    by auto
  moreover from b have
    "get_embeddings (repo_env\<lparr>openai_api_key := Some (str ''sk-1'')\<rparr>) (str ''openai'') (str ''m'') =
       ([], Inr (OpenAIEmbeddings (str ''m''))) \<and>
     get_llm_provider (repo_env\<lparr>openai_api_key := Some (str ''sk-1'')\<rparr>) (str ''openai'') (str ''g'') =
       ([], Inr (ChatOpenAI (str ''g'')))"
    by (simp add: str_def)
  ultimately show ?thesis
    by (simp add: latest_store_env)
qed

section \<open>The provider of a search and the outcome of the run\<close>

lemma get_embeddings_hf:
  "get_embeddings e (str ''hf'') model = ([], Inr (HuggingFaceEmbeddings model))"
  by (simp add: get_embeddings_def ret_def)

lemma get_embeddings_openai:
  "get_embeddings e (str ''openai'') model =
     (case openai_api_key e of
        None \<Rightarrow> ([Echo Stderr api_key_not_set], Inl (Exit 1))
      | Some key \<Rightarrow>
          if key = [] then ([Echo Stderr api_key_not_set], Inl (Exit 1))
          else ([], Inr (OpenAIEmbeddings model)))"
  by (simp add: get_embeddings_def get_api_key_def get_api_key_openai_def exit_1_def ret_def
      run_bind_Inl run_bind_Inr str_hf_openai [symmetric] split: option.splits)

lemma get_embeddings_other:
  "provider \<noteq> str ''hf'' \<Longrightarrow> provider \<noteq> str ''openai'' \<Longrightarrow>
   snd (get_embeddings e provider model) = Inl (Exit 1)"
  by (simp add: get_embeddings_def exit_1_def)

lemma searches_per_provider:
  "(Q = str ''hf'' \<longrightarrow>
      (\<forall>x \<in> set (searches (fst (search e query Q model summarize llm_provider llm_model k))).
         \<exists>dir. x = (dir, HuggingFaceEmbeddings model, query, k))) \<and>
   (Q = str ''openai'' \<longrightarrow>
      (\<forall>x \<in> set (searches (fst (search e query Q model summarize llm_provider llm_model k))).
         \<exists>dir. x = (dir, OpenAIEmbeddings model, query, k))) \<and>
   (Q \<noteq> str ''hf'' \<and> Q \<noteq> str ''openai'' \<longrightarrow>
      searches (fst (search e query Q model summarize llm_provider llm_model k)) = [])"
proof (intro conjI impI ballI)
  fix x
  assume q: "Q = str ''hf''"
    and x: "x \<in> set (searches (fst (search e query Q model summarize llm_provider llm_model k)))"
  from search_embeds_with_own_provider [of e query Q model summarize llm_provider llm_model k] x
  obtain dir emb where "x = (dir, emb, query, k)" "snd (get_embeddings e Q model) = Inr emb"
    by auto
  with q show "\<exists>dir. x = (dir, HuggingFaceEmbeddings model, query, k)"
    by (simp add: get_embeddings_hf)
next
  fix x
  assume q: "Q = str ''openai''"
    and x: "x \<in> set (searches (fst (search e query Q model summarize llm_provider llm_model k)))"
  from search_embeds_with_own_provider [of e query Q model summarize llm_provider llm_model k] x
  obtain dir emb where "x = (dir, emb, query, k)" "snd (get_embeddings e Q model) = Inr emb"
    by auto
  with q show "\<exists>dir. x = (dir, OpenAIEmbeddings model, query, k)"
    by (auto simp: get_embeddings_openai split: option.splits if_splits)
next
  assume q: "Q \<noteq> str ''hf'' \<and> Q \<noteq> str ''openai''"
  show "searches (fst (search e query Q model summarize llm_provider llm_model k)) = []"
  proof (rule ccontr)
    assume "searches (fst (search e query Q model summarize llm_provider llm_model k)) \<noteq> []"
    then obtain x where
      "x \<in> set (searches (fst (search e query Q model summarize llm_provider llm_model k)))"
      by (cases "searches (fst (search e query Q model summarize llm_provider llm_model k))") auto
    with search_embeds_with_own_provider [of e query Q model summarize llm_provider llm_model k]
    obtain emb where "snd (get_embeddings e Q model) = Inr emb" by auto
    with q show False by (simp add: get_embeddings_other)
  qed
qed

lemma get_llm_provider_ok_silent:
  "get_llm_provider e provider model = (es, Inr llm) \<Longrightarrow> es = []"
  by (auto simp: get_llm_provider_def get_llm_provider_openai_def get_api_key_def
      get_api_key_openai_def exit_1_def ret_def run_bind_def split: if_splits option.splits)

lemma search_plain:
  assumes "length query \<le> 200" and "glob root_dir embeddings_pattern (files e) \<noteq> []"
    and "map_of (files e) (last (sort (glob root_dir embeddings_pattern (files e)))) =
           Some (Text_json (JObj kvs))"
    and "map_of kvs (str ''chroma_dir'') = Some dir"
    and "snd (get_embeddings e provider model) = Inr emb"
    and "chroma_similarity_search e dir emb query k = Inr docs"
    and "format_results docs [] = (lines, Inr commits)"
  shows "search e query provider model False llm_provider llm_model k =
     ([Read_text (last (sort (glob root_dir embeddings_pattern (files e)))),
       Similarity_search dir emb query k,
       Echo Stdout ([0x1F50D] @ str '' Top '' @ str_of_nat (length docs) @ str '' matching commits:'')] @
      lines, Inr ())"
proof -
  obtain es where "get_embeddings e provider model = (es, Inr emb)"
    using assms(5) by (cases "get_embeddings e provider model") simp
  then have ge: "get_embeddings e provider model = ([], Inr emb)"
    using get_embeddings_ok_silent by blast
  from assms(1-4,6,7) ge show ?thesis
    by (simp add: search_def Let_def run_bind_Inr run_bind_Inl read_json_def subscript_def
        lift_def emit_def echo_def ret_def)
qed


lemma format_results_echoes:
  "\<forall>ev \<in> set (fst (format_results docs commits)). \<exists>msg. ev = Echo Stdout msg"
proof (induction docs arbitrary: commits)
  case Nil
  show ?case by (simp add: ret_def)
next
  case (Cons d docs)
  show ?case
  proof (cases "splitlines (take 100 (page_content d))")
    case Nil
    then show ?thesis by (simp add: raise_def)
  next
    case (Cons l ls)
    then show ?thesis
      using Cons.IH by (simp add: Let_def echo_def emit_def run_bind_Inr)
  qed
qed

lemma store_after_prepare:
  assumes ok: "snd (prepare e1 folder P m1) = Inr u"
    and fs: "files e2 = files_after (fst (prepare e1 folder P m1)) []"
    and node: "47 \<notin> set (resolved_name e1)"
  shows "glob root_dir embeddings_pattern (files e2) \<noteq> [] \<and>
         last (sort (glob root_dir embeddings_pattern (files e2))) =
           fst (get_embeddings_store_paths e1) \<and>
         (\<exists>kvs. map_of (files e2) (last (sort (glob root_dir embeddings_pattern (files e2)))) =
                   Some (Text_json (JObj kvs)) \<and>
                map_of kvs (str ''chroma_dir'') = Some (JStr (snd (get_embeddings_store_paths e1))))"
proof -
  let ?path = "root_dir @ str ''/'' @ replace_char 32 95 (resolved_name e1) @ str ''-embeddings-'' @
     strftime (now e1) @ str ''.json''"
  have path: "fst (get_embeddings_store_paths e1) = ?path"
    by (simp add: get_embeddings_store_paths_def Let_def)
  from prepare_writes [OF ok] obtain out raw where
    w: "writes (fst (prepare e1 folder P m1)) =
       [(?path,
         payload (strip out) (utcnow_isoformat e1 @ str ''Z'') P
           (length (fst (extract_commits_with_message raw))) folder
           (snd (get_embeddings_store_paths e1)))]"
    unfolding path by blast
  let ?json = "payload (strip out) (utcnow_isoformat e1 @ str ''Z'') P
           (length (fst (extract_commits_with_message raw))) folder
           (snd (get_embeddings_store_paths e1))"
  from fs w have files: "files e2 = [(?path, Text_json ?json)]"
    by (simp add: files_after_single)
  have g: "glob root_dir embeddings_pattern (files e2) = [?path]"
    unfolding files
    by (rule glob_single_metadata_file) (simp_all add: no_slash_replace_char node no_slash_strftime)
  then have ne: "glob root_dir embeddings_pattern (files e2) \<noteq> []" by simp
  have latest: "last (sort (glob root_dir embeddings_pattern (files e2))) = ?path"
    by (simp add: g)
  have look: "map_of (files e2) (last (sort (glob root_dir embeddings_pattern (files e2)))) =
      Some (Text_json (JObj [(str ''branch'', JStr (strip out)),
           (str ''created_at'', JStr (utcnow_isoformat e1 @ str ''Z'')),
           (str ''provider'', JStr P),
           (str ''doc_count'', JInt (int (length (fst (extract_commits_with_message raw))))),
           (str ''path'', JStr folder),
           (str ''chroma_dir'', JStr (snd (get_embeddings_store_paths e1)))]))"
    unfolding latest by (simp add: files payload_def)
  have key: "map_of [(str ''branch'', JStr (strip out)),
           (str ''created_at'', JStr (utcnow_isoformat e1 @ str ''Z'')),
           (str ''provider'', JStr P),
           (str ''doc_count'', JInt (int (length (fst (extract_commits_with_message raw))))),
           (str ''path'', JStr folder),
           (str ''chroma_dir'', JStr (snd (get_embeddings_store_paths e1)))] (str ''chroma_dir'') =
      Some (JStr (snd (get_embeddings_store_paths e1)))"
    by (simp add: str_def)
  from look key have "\<exists>kvs. map_of (files e2) (last (sort (glob root_dir embeddings_pattern (files e2)))) =
                   Some (Text_json (JObj kvs)) \<and>
                map_of kvs (str ''chroma_dir'') = Some (JStr (snd (get_embeddings_store_paths e1)))"
    by (intro exI conjI)
  with ne latest path show ?thesis by simp
qed

lemma search_outcome_after_prepare:
  assumes ok: "snd (prepare e1 folder P m1) = Inr u"
    and fs: "files e2 = files_after (fst (prepare e1 folder P m1)) []"
    and node: "47 \<notin> set (resolved_name e1)"
    and q: "length query \<le> 200"
    and emb: "snd (get_embeddings e2 Q m2) = Inr emb"
    and docs: "chroma_similarity_search e2 (JStr (snd (get_embeddings_store_paths e1))) emb query k =
                 Inr docs"
    and msgs: "\<forall>d \<in> set docs. page_content d \<noteq> []"
  shows "search e2 query Q m2 False llm_provider llm_model k =
           ([Read_text (fst (get_embeddings_store_paths e1)),
             Similarity_search (JStr (snd (get_embeddings_store_paths e1))) emb query k,
             Echo Stdout ([0x1F50D] @ str '' Top '' @ str_of_nat (length docs) @
                          str '' matching commits:'')] @
            fst (format_results docs []), Inr ()) \<and>
         (\<forall>commits llm.
            snd (format_results docs []) = Inr commits \<and>
            snd (get_llm_provider e2 llm_provider llm_model) = Inr llm \<longrightarrow>
            search e2 query Q m2 True llm_provider llm_model k =
              ([Read_text (fst (get_embeddings_store_paths e1)),
                Similarity_search (JStr (snd (get_embeddings_store_paths e1))) emb query k,
                Echo Stdout ([0x1F50D] @ str '' Top '' @ str_of_nat (length docs) @
                             str '' matching commits:'')] @
               fst (format_results docs []) @
               [Invoke llm (system_prompt @ [10, 10] @ str ''Commit Messages:'' @ [10] @ commits @
                            [10, 10] @ str ''Question:'' @ [10] @ query)] @
               (case llm_invoke e2 llm (system_prompt @ [10, 10] @ str ''Commit Messages:'' @ [10] @
                                        commits @ [10, 10] @ str ''Question:'' @ [10] @ query) of
                  Inl err \<Rightarrow> []
                | Inr response \<Rightarrow>
                    [Echo Stdout ([10, 0x1F916] @ str '' LLM Answer:''),
                     Echo Stdout (strip (case response of With_content c \<Rightarrow> c
                                         | Without_content r \<Rightarrow> r))]),
               map_sum id (\<lambda>_. ())
                 (llm_invoke e2 llm (system_prompt @ [10, 10] @ str ''Commit Messages:'' @ [10] @
                                     commits @ [10, 10] @ str ''Question:'' @ [10] @ query))))"
proof -
  from store_after_prepare [OF ok fs node] obtain kvs where
    ne: "glob root_dir embeddings_pattern (files e2) \<noteq> []" and
    latest: "last (sort (glob root_dir embeddings_pattern (files e2))) =
           fst (get_embeddings_store_paths e1)" and
    look: "map_of (files e2) (last (sort (glob root_dir embeddings_pattern (files e2)))) =
                   Some (Text_json (JObj kvs))" and
    key: "map_of kvs (str ''chroma_dir'') = Some (JStr (snd (get_embeddings_store_paths e1)))"
    by auto
  from format_results_ok [OF msgs, of "[]"] obtain commits0 where
    c0: "snd (format_results docs []) = Inr commits0" by blast
  then have fr0: "format_results docs [] = (fst (format_results docs []), Inr commits0)"
    by (cases "format_results docs []") simp
  have plain: "search e2 query Q m2 False llm_provider llm_model k =
           ([Read_text (fst (get_embeddings_store_paths e1)),
             Similarity_search (JStr (snd (get_embeddings_store_paths e1))) emb query k,
             Echo Stdout ([0x1F50D] @ str '' Top '' @ str_of_nat (length docs) @
                          str '' matching commits:'')] @
            fst (format_results docs []), Inr ())"
    using search_plain [OF q ne look key emb docs fr0] latest by simp
  have summ: "search e2 query Q m2 True llm_provider llm_model k =
              ([Read_text (fst (get_embeddings_store_paths e1)),
                Similarity_search (JStr (snd (get_embeddings_store_paths e1))) emb query k,
                Echo Stdout ([0x1F50D] @ str '' Top '' @ str_of_nat (length docs) @
                             str '' matching commits:'')] @
               fst (format_results docs []) @
               [Invoke llm (system_prompt @ [10, 10] @ str ''Commit Messages:'' @ [10] @ commits @
                            [10, 10] @ str ''Question:'' @ [10] @ query)] @
               (case llm_invoke e2 llm (system_prompt @ [10, 10] @ str ''Commit Messages:'' @ [10] @
                                        commits @ [10, 10] @ str ''Question:'' @ [10] @ query) of
                  Inl err \<Rightarrow> []
                | Inr response \<Rightarrow>
                    [Echo Stdout ([10, 0x1F916] @ str '' LLM Answer:''),
                     Echo Stdout (strip (case response of With_content c \<Rightarrow> c
                                         | Without_content r \<Rightarrow> r))]),
               map_sum id (\<lambda>_. ())
                 (llm_invoke e2 llm (system_prompt @ [10, 10] @ str ''Commit Messages:'' @ [10] @
                                     commits @ [10, 10] @ str ''Question:'' @ [10] @ query)))"
    if "snd (format_results docs []) = Inr commits \<and>
        snd (get_llm_provider e2 llm_provider llm_model) = Inr llm" for commits llm
  proof -
    from that have fr: "format_results docs [] = (fst (format_results docs []), Inr commits)"
      by (cases "format_results docs []") simp
    from that have gl: "snd (get_llm_provider e2 llm_provider llm_model) = Inr llm" by simp
    then obtain es where "get_llm_provider e2 llm_provider llm_model = (es, Inr llm)"
      by (cases "get_llm_provider e2 llm_provider llm_model") simp
    then have silent: "fst (get_llm_provider e2 llm_provider llm_model) = []"
      using get_llm_provider_ok_silent by fastforce
    from search_summarize [OF q ne look key emb docs fr gl] latest silent
    show ?thesis by simp
  qed
  from plain summ show ?thesis by (intro conjI allI impI)
qed

lemma store_paths_keyed_env:
  "get_embeddings_store_paths keyed_env =
     (str ''.tmp/my_repo-embeddings-20250309140507.json'', str ''.tmp/.git_gpt_chroma_db_20250309140507'')"
  by (simp add: get_embeddings_store_paths_def keyed_env_def repo_env_def eval_strings)

lemma prepare_keyed_env_ok:
  "snd (prepare keyed_env (str ''/home/u/my repo'') (str ''openai'') (str ''text-embedding-3-small'')) =
     Inr ()"
  by (simp add: keyed_env_def eval_prepare eval_run eval_strings repo_env_def)

lemma format_two_results:
  "fst (format_results two_results []) =
     [Echo Stdout (str ''- a1: Ann on Mon: fix...''),
      Echo Stdout (str ''- '' @ 10 # str ''b2: Bob on Sun: init...'')]"
  by (simp add: two_results_def fmt_def splitlines_def is_linebreak_def eval_run str_def)

text \<open>
  C10. \<open>search\<close> embeds the query with the provider and model of its own command line.
  With \<open>--provider hf\<close> every similarity search of the run carries the local embeddings of
  the model given, with \<open>--provider openai\<close> the hosted ones, and with any other provider
  there is no similarity search at all. The provider recorded in the metadata files plays
  no part: the run is the same, in all it prints and returns, whatever provider they
  record. After a completed \<open>prepare\<close> with provider \<open>P\<close> on an empty store directory, a
  \<open>search\<close> with provider \<open>Q\<close> reads the file just written, prints nothing before it
  searches the \<open>chroma_dir\<close> of that file with the embeddings of \<open>Q\<close>, and, when the
  vector store answers with commits that all have a message, prints the count and one
  line per commit on the output stream and completes; with \<open>--summarize\<close> it goes on to the
  chat model, whose answer is then the only thing that decides how the run ends. Nothing
  in this depends on \<open>P\<close> being \<open>Q\<close>.
\<close>

theorem search_embeds_with_command_line_provider:
  "((Q = str ''hf'' \<longrightarrow>
      (\<forall>x \<in> set (searches (fst (search e query Q model summarize llm_provider llm_model k))).
         \<exists>dir. x = (dir, HuggingFaceEmbeddings model, query, k))) \<and>
    (Q = str ''openai'' \<longrightarrow>
      (\<forall>x \<in> set (searches (fst (search e query Q model summarize llm_provider llm_model k))).
         \<exists>dir. x = (dir, OpenAIEmbeddings model, query, k))) \<and>
    (Q \<noteq> str ''hf'' \<and> Q \<noteq> str ''openai'' \<longrightarrow>
      searches (fst (search e query Q model summarize llm_provider llm_model k)) = [])) \<and>
   search (with_recorded_provider P e) query Q model summarize llm_provider llm_model k =
     search e query Q model summarize llm_provider llm_model k \<and>
   (snd (prepare e1 folder P m1) = Inr () \<and>
    files e = files_after (fst (prepare e1 folder P m1)) [] \<and>
    47 \<notin> set (resolved_name e1) \<and> length query \<le> 200 \<and>
    (Q = str ''hf'' \<and> emb = HuggingFaceEmbeddings model \<or>
     Q = str ''openai'' \<and> (\<exists>key. openai_api_key e = Some key \<and> key \<noteq> []) \<and>
       emb = OpenAIEmbeddings model) \<longrightarrow>
      reads (fst (search e query Q model summarize llm_provider llm_model k)) =
        [fst (get_embeddings_store_paths e1)] \<and>
      searches (fst (search e query Q model summarize llm_provider llm_model k)) =
        [(JStr (snd (get_embeddings_store_paths e1)), emb, query, k)] \<and>
      (\<exists>rest. fst (search e query Q model summarize llm_provider llm_model k) =
         Read_text (fst (get_embeddings_store_paths e1)) #
         Similarity_search (JStr (snd (get_embeddings_store_paths e1))) emb query k # rest) \<and>
      (\<forall>docs.
         chroma_similarity_search e (JStr (snd (get_embeddings_store_paths e1))) emb query k =
           Inr docs \<and>
         (\<forall>d \<in> set docs. page_content d \<noteq> []) \<longrightarrow>
         search e query Q model False llm_provider llm_model k =
           ([Read_text (fst (get_embeddings_store_paths e1)),
             Similarity_search (JStr (snd (get_embeddings_store_paths e1))) emb query k,
             Echo Stdout ([0x1F50D] @ str '' Top '' @ str_of_nat (length docs) @
                          str '' matching commits:'')] @
            fst (format_results docs []), Inr ()) \<and>
         (\<forall>ev \<in> set (fst (format_results docs [])). \<exists>msg. ev = Echo Stdout msg) \<and>
         (\<forall>commits llm.
            snd (format_results docs []) = Inr commits \<and>
            snd (get_llm_provider e llm_provider llm_model) = Inr llm \<longrightarrow>
            search e query Q model True llm_provider llm_model k =
              ([Read_text (fst (get_embeddings_store_paths e1)),
                Similarity_search (JStr (snd (get_embeddings_store_paths e1))) emb query k,
                Echo Stdout ([0x1F50D] @ str '' Top '' @ str_of_nat (length docs) @
                             str '' matching commits:'')] @
               fst (format_results docs []) @
               [Invoke llm (system_prompt @ [10, 10] @ str ''Commit Messages:'' @ [10] @ commits @
                            [10, 10] @ str ''Question:'' @ [10] @ query)] @
               (case llm_invoke e llm (system_prompt @ [10, 10] @ str ''Commit Messages:'' @ [10] @
                                       commits @ [10, 10] @ str ''Question:'' @ [10] @ query) of
                  Inl err \<Rightarrow> []
                | Inr response \<Rightarrow>
                    [Echo Stdout ([10, 0x1F916] @ str '' LLM Answer:''),
                     Echo Stdout (strip (case response of With_content c \<Rightarrow> c
                                         | Without_content r \<Rightarrow> r))]),
               map_sum id (\<lambda>_. ())
                 (llm_invoke e llm (system_prompt @ [10, 10] @ str ''Commit Messages:'' @ [10] @
                                    commits @ [10, 10] @ str ''Question:'' @ [10] @ query))))))"
proof (intro conjI)
  show "search (with_recorded_provider P e) query Q model summarize llm_provider llm_model k =
     search e query Q model summarize llm_provider llm_model k"
    by (rule search_ignores_recorded_provider)
next
  show "Q = str ''hf'' \<longrightarrow>
      (\<forall>x \<in> set (searches (fst (search e query Q model summarize llm_provider llm_model k))).
         \<exists>dir. x = (dir, HuggingFaceEmbeddings model, query, k))"
    using searches_per_provider [of Q e query model summarize llm_provider llm_model k]
    by (rule conjunct1)
next
  show "Q = str ''openai'' \<longrightarrow>
      (\<forall>x \<in> set (searches (fst (search e query Q model summarize llm_provider llm_model k))).
         \<exists>dir. x = (dir, OpenAIEmbeddings model, query, k))"
    using searches_per_provider [of Q e query model summarize llm_provider llm_model k]
    by (elim conjE)
next
  show "Q \<noteq> str ''hf'' \<and> Q \<noteq> str ''openai'' \<longrightarrow>
      searches (fst (search e query Q model summarize llm_provider llm_model k)) = []"
    using searches_per_provider [of Q e query model summarize llm_provider llm_model k]
    by (elim conjE)
next
  show "snd (prepare e1 folder P m1) = Inr () \<and>
    files e = files_after (fst (prepare e1 folder P m1)) [] \<and>
    47 \<notin> set (resolved_name e1) \<and> length query \<le> 200 \<and>
    (Q = str ''hf'' \<and> emb = HuggingFaceEmbeddings model \<or>
     Q = str ''openai'' \<and> (\<exists>key. openai_api_key e = Some key \<and> key \<noteq> []) \<and>
       emb = OpenAIEmbeddings model) \<longrightarrow>
      reads (fst (search e query Q model summarize llm_provider llm_model k)) =
        [fst (get_embeddings_store_paths e1)] \<and>
      searches (fst (search e query Q model summarize llm_provider llm_model k)) =
        [(JStr (snd (get_embeddings_store_paths e1)), emb, query, k)] \<and>
      (\<exists>rest. fst (search e query Q model summarize llm_provider llm_model k) =
         Read_text (fst (get_embeddings_store_paths e1)) #
         Similarity_search (JStr (snd (get_embeddings_store_paths e1))) emb query k # rest) \<and>
      (\<forall>docs.
         chroma_similarity_search e (JStr (snd (get_embeddings_store_paths e1))) emb query k =
           Inr docs \<and>
         (\<forall>d \<in> set docs. page_content d \<noteq> []) \<longrightarrow>
         search e query Q model False llm_provider llm_model k =
           ([Read_text (fst (get_embeddings_store_paths e1)),
             Similarity_search (JStr (snd (get_embeddings_store_paths e1))) emb query k,
             Echo Stdout ([0x1F50D] @ str '' Top '' @ str_of_nat (length docs) @
                          str '' matching commits:'')] @
            fst (format_results docs []), Inr ()) \<and>
         (\<forall>ev \<in> set (fst (format_results docs [])). \<exists>msg. ev = Echo Stdout msg) \<and>
         (\<forall>commits llm.
            snd (format_results docs []) = Inr commits \<and>
            snd (get_llm_provider e llm_provider llm_model) = Inr llm \<longrightarrow>
            search e query Q model True llm_provider llm_model k =
              ([Read_text (fst (get_embeddings_store_paths e1)),
                Similarity_search (JStr (snd (get_embeddings_store_paths e1))) emb query k,
                Echo Stdout ([0x1F50D] @ str '' Top '' @ str_of_nat (length docs) @
                             str '' matching commits:'')] @
               fst (format_results docs []) @
               [Invoke llm (system_prompt @ [10, 10] @ str ''Commit Messages:'' @ [10] @ commits @
                            [10, 10] @ str ''Question:'' @ [10] @ query)] @
               (case llm_invoke e llm (system_prompt @ [10, 10] @ str ''Commit Messages:'' @ [10] @
                                       commits @ [10, 10] @ str ''Question:'' @ [10] @ query) of
                  Inl err \<Rightarrow> []
                | Inr response \<Rightarrow>
                    [Echo Stdout ([10, 0x1F916] @ str '' LLM Answer:''),
                     Echo Stdout (strip (case response of With_content c \<Rightarrow> c
                                         | Without_content r \<Rightarrow> r))]),
               map_sum id (\<lambda>_. ())
                 (llm_invoke e llm (system_prompt @ [10, 10] @ str ''Commit Messages:'' @ [10] @
                                    commits @ [10, 10] @ str ''Question:'' @ [10] @ query)))))"
  proof (intro impI)
    assume h: "snd (prepare e1 folder P m1) = Inr () \<and>
      files e = files_after (fst (prepare e1 folder P m1)) [] \<and>
      47 \<notin> set (resolved_name e1) \<and> length query \<le> 200 \<and>
      (Q = str ''hf'' \<and> emb = HuggingFaceEmbeddings model \<or>
       Q = str ''openai'' \<and> (\<exists>key. openai_api_key e = Some key \<and> key \<noteq> []) \<and>
         emb = OpenAIEmbeddings model)"
    then have ok: "snd (prepare e1 folder P m1) = Inr ()"
      and fs: "files e = files_after (fst (prepare e1 folder P m1)) []"
      and node: "47 \<notin> set (resolved_name e1)" and q: "length query \<le> 200"
      and prov: "Q = str ''hf'' \<and> emb = HuggingFaceEmbeddings model \<or>
       Q = str ''openai'' \<and> (\<exists>key. openai_api_key e = Some key \<and> key \<noteq> []) \<and>
         emb = OpenAIEmbeddings model"
      by simp_all
    from prov have emb: "snd (get_embeddings e Q model) = Inr emb"
      by (auto simp: get_embeddings_hf get_embeddings_openai)
    note first = search_after_prepare [OF ok fs node q emb, of summarize llm_provider llm_model k]
    have rest: "search e query Q model False llm_provider llm_model k =
           ([Read_text (fst (get_embeddings_store_paths e1)),
             Similarity_search (JStr (snd (get_embeddings_store_paths e1))) emb query k,
             Echo Stdout ([0x1F50D] @ str '' Top '' @ str_of_nat (length docs) @
                          str '' matching commits:'')] @
            fst (format_results docs []), Inr ()) \<and>
         (\<forall>ev \<in> set (fst (format_results docs [])). \<exists>msg. ev = Echo Stdout msg) \<and>
         (\<forall>commits llm.
            snd (format_results docs []) = Inr commits \<and>
            snd (get_llm_provider e llm_provider llm_model) = Inr llm \<longrightarrow>
            search e query Q model True llm_provider llm_model k =
              ([Read_text (fst (get_embeddings_store_paths e1)),
                Similarity_search (JStr (snd (get_embeddings_store_paths e1))) emb query k,
                Echo Stdout ([0x1F50D] @ str '' Top '' @ str_of_nat (length docs) @
                             str '' matching commits:'')] @
               fst (format_results docs []) @
               [Invoke llm (system_prompt @ [10, 10] @ str ''Commit Messages:'' @ [10] @ commits @
                            [10, 10] @ str ''Question:'' @ [10] @ query)] @
               (case llm_invoke e llm (system_prompt @ [10, 10] @ str ''Commit Messages:'' @ [10] @
                                       commits @ [10, 10] @ str ''Question:'' @ [10] @ query) of
                  Inl err \<Rightarrow> []
                | Inr response \<Rightarrow>
                    [Echo Stdout ([10, 0x1F916] @ str '' LLM Answer:''),
                     Echo Stdout (strip (case response of With_content c \<Rightarrow> c
                                         | Without_content r \<Rightarrow> r))]),
               map_sum id (\<lambda>_. ())
                 (llm_invoke e llm (system_prompt @ [10, 10] @ str ''Commit Messages:'' @ [10] @
                                    commits @ [10, 10] @ str ''Question:'' @ [10] @ query))))"
      if "chroma_similarity_search e (JStr (snd (get_embeddings_store_paths e1))) emb query k =
           Inr docs \<and>
         (\<forall>d \<in> set docs. page_content d \<noteq> [])" for docs
    proof -
      from that have d: "chroma_similarity_search e (JStr (snd (get_embeddings_store_paths e1))) emb
          query k = Inr docs" and m: "\<forall>d \<in> set docs. page_content d \<noteq> []"
        by simp_all
      from search_outcome_after_prepare [OF ok fs node q emb d m, of llm_provider llm_model]
        format_results_echoes [of docs "[]"]
      show ?thesis by (intro conjI) (elim conjE, assumption)+
    qed
    from rest have rest': "\<forall>docs.
         chroma_similarity_search e (JStr (snd (get_embeddings_store_paths e1))) emb query k =
           Inr docs \<and>
         (\<forall>d \<in> set docs. page_content d \<noteq> []) \<longrightarrow>
         search e query Q model False llm_provider llm_model k =
           ([Read_text (fst (get_embeddings_store_paths e1)),
             Similarity_search (JStr (snd (get_embeddings_store_paths e1))) emb query k,
             Echo Stdout ([0x1F50D] @ str '' Top '' @ str_of_nat (length docs) @
                          str '' matching commits:'')] @
            fst (format_results docs []), Inr ()) \<and>
         (\<forall>ev \<in> set (fst (format_results docs [])). \<exists>msg. ev = Echo Stdout msg) \<and>
         (\<forall>commits llm.
            snd (format_results docs []) = Inr commits \<and>
            snd (get_llm_provider e llm_provider llm_model) = Inr llm \<longrightarrow>
            search e query Q model True llm_provider llm_model k =
              ([Read_text (fst (get_embeddings_store_paths e1)),
                Similarity_search (JStr (snd (get_embeddings_store_paths e1))) emb query k,
                Echo Stdout ([0x1F50D] @ str '' Top '' @ str_of_nat (length docs) @
                             str '' matching commits:'')] @
               fst (format_results docs []) @
               [Invoke llm (system_prompt @ [10, 10] @ str ''Commit Messages:'' @ [10] @ commits @
                            [10, 10] @ str ''Question:'' @ [10] @ query)] @
               (case llm_invoke e llm (system_prompt @ [10, 10] @ str ''Commit Messages:'' @ [10] @
                                       commits @ [10, 10] @ str ''Question:'' @ [10] @ query) of
                  Inl err \<Rightarrow> []
                | Inr response \<Rightarrow>
                    [Echo Stdout ([10, 0x1F916] @ str '' LLM Answer:''),
                     Echo Stdout (strip (case response of With_content c \<Rightarrow> c
                                         | Without_content r \<Rightarrow> r))]),
               map_sum id (\<lambda>_. ())
                 (llm_invoke e llm (system_prompt @ [10, 10] @ str ''Commit Messages:'' @ [10] @
                                    commits @ [10, 10] @ str ''Question:'' @ [10] @ query))))"
      by (intro allI impI)
    from first rest' show "reads (fst (search e query Q model summarize llm_provider llm_model k)) =
        [fst (get_embeddings_store_paths e1)] \<and>
      searches (fst (search e query Q model summarize llm_provider llm_model k)) =
        [(JStr (snd (get_embeddings_store_paths e1)), emb, query, k)] \<and>
      (\<exists>rest. fst (search e query Q model summarize llm_provider llm_model k) =
         Read_text (fst (get_embeddings_store_paths e1)) #
         Similarity_search (JStr (snd (get_embeddings_store_paths e1))) emb query k # rest) \<and>
      (\<forall>docs.
         chroma_similarity_search e (JStr (snd (get_embeddings_store_paths e1))) emb query k =
           Inr docs \<and>
         (\<forall>d \<in> set docs. page_content d \<noteq> []) \<longrightarrow>
         search e query Q model False llm_provider llm_model k =
           ([Read_text (fst (get_embeddings_store_paths e1)),
             Similarity_search (JStr (snd (get_embeddings_store_paths e1))) emb query k,
             Echo Stdout ([0x1F50D] @ str '' Top '' @ str_of_nat (length docs) @
                          str '' matching commits:'')] @
            fst (format_results docs []), Inr ()) \<and>
         (\<forall>ev \<in> set (fst (format_results docs [])). \<exists>msg. ev = Echo Stdout msg) \<and>
         (\<forall>commits llm.
            snd (format_results docs []) = Inr commits \<and>
            snd (get_llm_provider e llm_provider llm_model) = Inr llm \<longrightarrow>
            search e query Q model True llm_provider llm_model k =
              ([Read_text (fst (get_embeddings_store_paths e1)),
                Similarity_search (JStr (snd (get_embeddings_store_paths e1))) emb query k,
                Echo Stdout ([0x1F50D] @ str '' Top '' @ str_of_nat (length docs) @
                             str '' matching commits:'')] @
               fst (format_results docs []) @
               [Invoke llm (system_prompt @ [10, 10] @ str ''Commit Messages:'' @ [10] @ commits @
                            [10, 10] @ str ''Question:'' @ [10] @ query)] @
               (case llm_invoke e llm (system_prompt @ [10, 10] @ str ''Commit Messages:'' @ [10] @
                                       commits @ [10, 10] @ str ''Question:'' @ [10] @ query) of
                  Inl err \<Rightarrow> []
                | Inr response \<Rightarrow>
                    [Echo Stdout ([10, 0x1F916] @ str '' LLM Answer:''),
                     Echo Stdout (strip (case response of With_content c \<Rightarrow> c
                                         | Without_content r \<Rightarrow> r))]),
               map_sum id (\<lambda>_. ())
                 (llm_invoke e llm (system_prompt @ [10, 10] @ str ''Commit Messages:'' @ [10] @
                                    commits @ [10, 10] @ str ''Question:'' @ [10] @ query)))))"
      by (intro conjI) (elim conjE, assumption)+
  qed
qed

theorem search_embeds_with_command_line_provider_witness:
  "search openai_searcher_env (str ''bug'') (str ''openai'') (str ''text-embedding-3-small'') False
     (str ''openai'') (str ''gpt'') 5 =
     ([Read_text (str ''.tmp/my_repo-embeddings-20250309140507.json''),
       Similarity_search (JStr (str ''.tmp/.git_gpt_chroma_db_20250309140507''))
         (OpenAIEmbeddings (str ''text-embedding-3-small'')) (str ''bug'') 5,
       Echo Stdout (0x1F50D # str '' Top 2 matching commits:''),
       Echo Stdout (str ''- a1: Ann on Mon: fix...''),
       Echo Stdout (str ''- '' @ 10 # str ''b2: Bob on Sun: init...'')],
      Inr ()) \<and>
   search hf_searcher_env (str ''bug'') (str ''hf'') (str ''bge'') False (str ''openai'') (str ''gpt'') 5 =
     ([Read_text (str ''.tmp/my_repo-embeddings-20250309140507.json''),
       Similarity_search (JStr (str ''.tmp/.git_gpt_chroma_db_20250309140507''))
         (HuggingFaceEmbeddings (str ''bge'')) (str ''bug'') 5,
       Echo Stdout (0x1F50D # str '' Top 2 matching commits:''),
       Echo Stdout (str ''- a1: Ann on Mon: fix...''),
       Echo Stdout (str ''- '' @ 10 # str ''b2: Bob on Sun: init...'')],
      Inr ()) \<and>
   search (with_recorded_provider (str ''openai'') openai_searcher_env) (str ''bug'') (str ''openai'')
       (str ''text-embedding-3-small'') False (str ''openai'') (str ''gpt'') 5 =
     search openai_searcher_env (str ''bug'') (str ''openai'') (str ''text-embedding-3-small'')
       False (str ''openai'') (str ''gpt'') 5"
proof -
  note A = search_embeds_with_command_line_provider
    [where e = openai_searcher_env and query = "str ''bug''" and Q = "str ''openai''"
      and model = "str ''text-embedding-3-small''" and summarize = False
      and llm_provider = "str ''openai''" and llm_model = "str ''gpt''" and k = 5
      and P = "str ''hf''" and ?e1.0 = repo_env and folder = "str ''/home/u/my repo''"
      and ?m1.0 = "str ''bge''" and emb = "OpenAIEmbeddings (str ''text-embedding-3-small'')"]
  note B = search_embeds_with_command_line_provider
    [where e = hf_searcher_env and query = "str ''bug''" and Q = "str ''hf''"
      and model = "str ''bge''" and summarize = False
      and llm_provider = "str ''openai''" and llm_model = "str ''gpt''" and k = 5
      and P = "str ''openai''" and ?e1.0 = keyed_env and folder = "str ''/home/u/my repo''"
      and ?m1.0 = "str ''text-embedding-3-small''" and emb = "HuggingFaceEmbeddings (str ''bge'')"]
  note C = search_embeds_with_command_line_provider
    [where e = openai_searcher_env and query = "str ''bug''" and Q = "str ''openai''"
      and model = "str ''text-embedding-3-small''" and summarize = False
      and llm_provider = "str ''openai''" and llm_model = "str ''gpt''" and k = 5
      and P = "str ''openai''"]
  have q: "length (str ''bug'') \<le> 200" by (simp add: str_def)
  have top: "str '' Top '' @ str_of_nat (length two_results) @ str '' matching commits:'' =
      str '' Top 2 matching commits:''"
    by (simp add: two_results_def str_of_nat.simps str_def)
  have nonempty: "\<forall>d \<in> set two_results. page_content d \<noteq> []"
    by (simp add: two_results_def str_def)
  have a1: "snd (prepare repo_env (str ''/home/u/my repo'') (str ''hf'') (str ''bge'')) = Inr ()"
    by (simp add: prepare_repo_env)
  have a2: "files openai_searcher_env =
      files_after (fst (prepare repo_env (str ''/home/u/my repo'') (str ''hf'') (str ''bge''))) []"
    by (simp add: openai_searcher_env_def)
  have a3: "47 \<notin> set (resolved_name repo_env)" "47 \<notin> set (resolved_name keyed_env)"
    by (simp_all add: keyed_env_def repo_env_def str_def)
  have a4: "\<exists>key. openai_api_key openai_searcher_env = Some key \<and> key \<noteq> []"
    by (simp add: openai_searcher_env_def keyed_env_def str_def)
  have a5: "chroma_similarity_search openai_searcher_env
      (JStr (snd (get_embeddings_store_paths repo_env)))
      (OpenAIEmbeddings (str ''text-embedding-3-small'')) (str ''bug'') 5 = Inr two_results"
    by (simp add: openai_searcher_env_def)
  from A a1 a2 a3(1) q a4 a5 nonempty
  have first: "search openai_searcher_env (str ''bug'') (str ''openai'') (str ''text-embedding-3-small'')
      False (str ''openai'') (str ''gpt'') 5 =
     ([Read_text (fst (get_embeddings_store_paths repo_env)),
       Similarity_search (JStr (snd (get_embeddings_store_paths repo_env)))
         (OpenAIEmbeddings (str ''text-embedding-3-small'')) (str ''bug'') 5,
       Echo Stdout ([0x1F50D] @ str '' Top '' @ str_of_nat (length two_results) @
                    str '' matching commits:'')] @
      fst (format_results two_results []), Inr ())"
    by blast
  have b1: "snd (prepare keyed_env (str ''/home/u/my repo'') (str ''openai'')
      (str ''text-embedding-3-small'')) = Inr ()"
    by (rule prepare_keyed_env_ok)
  have b2: "files hf_searcher_env =
      files_after (fst (prepare keyed_env (str ''/home/u/my repo'') (str ''openai'')
        (str ''text-embedding-3-small''))) []"
    by (simp add: hf_searcher_env_def)
  have b5: "chroma_similarity_search hf_searcher_env
      (JStr (snd (get_embeddings_store_paths keyed_env)))
      (HuggingFaceEmbeddings (str ''bge'')) (str ''bug'') 5 = Inr two_results"
    by (simp add: hf_searcher_env_def)
  from B b1 b2 a3(2) q b5 nonempty
  have second: "search hf_searcher_env (str ''bug'') (str ''hf'') (str ''bge'') False (str ''openai'')
      (str ''gpt'') 5 =
     ([Read_text (fst (get_embeddings_store_paths keyed_env)),
       Similarity_search (JStr (snd (get_embeddings_store_paths keyed_env)))
         (HuggingFaceEmbeddings (str ''bge'')) (str ''bug'') 5,
       Echo Stdout ([0x1F50D] @ str '' Top '' @ str_of_nat (length two_results) @
                    str '' matching commits:'')] @
      fst (format_results two_results []), Inr ())"
    by blast
  have third: "search (with_recorded_provider (str ''openai'') openai_searcher_env) (str ''bug'')
       (str ''openai'') (str ''text-embedding-3-small'') False (str ''openai'') (str ''gpt'') 5 =
     search openai_searcher_env (str ''bug'') (str ''openai'') (str ''text-embedding-3-small'')
       False (str ''openai'') (str ''gpt'') 5"
    by (rule C [THEN conjunct2, THEN conjunct1])
  show ?thesis
    unfolding first second third
    by (simp add: store_paths_repo_env store_paths_keyed_env top format_two_results)
qed

end
